theory Spec2Isabelle
  imports Complex_Main "HOL-Library.Sublist" "HOL-Library.AList"
begin

section \<open>Strings, paths and the regular expressions\<close>

text \<open>
  File names and paths are Python \<open>str\<close> values. They are modelled as \<open>string\<close>, one
  \<open>char\<close> per code point below 256; the paths are POSIX paths (separator \<open>/\<close>).
\<close>

definition is_digit :: "char \<Rightarrow> bool" where
  "is_digit c = (48 \<le> (of_char c :: nat) \<and> (of_char c :: nat) \<le> 57)"

text \<open>The class \<open>\s\<close> of a Python \<open>str\<close> pattern, on the code points below 256.\<close>

definition is_space :: "char \<Rightarrow> bool" where
  "is_space c = (let n = (of_char c :: nat) in
     (9 \<le> n \<and> n \<le> 13) \<or> (28 \<le> n \<and> n \<le> 32) \<or> n = 133 \<or> n = 160)"

text \<open>\<open>os.path.basename\<close>: everything after the last slash.\<close>

definition basename :: "string \<Rightarrow> string" where
  "basename p = rev (takeWhile (\<lambda>c. c \<noteq> CHR ''/'') (rev p))"

text \<open>\<open>os.path.join\<close> of two components.\<close>

definition join :: "string \<Rightarrow> string \<Rightarrow> string" where
  "join a b =
     (if b \<noteq> [] \<and> hd b = CHR ''/'' then b
      else if a = [] \<or> last a = CHR ''/'' then a @ b
      else a @ ''/'' @ b)"

text \<open>Python's \<open>sub in s\<close> on strings: \<open>sub\<close> occurs in \<open>s\<close> as a contiguous block.\<close>

fun py_in :: "string \<Rightarrow> string \<Rightarrow> bool" where
  "py_in sub [] = (sub = [])"
| "py_in sub (c # cs) = (prefix sub (c # cs) \<or> py_in sub cs)"

text \<open>
  A match of \<open>[0-9]+_?[0-9]*Hz\<close> anchored at the head of the string; the result is what
  follows the match. After the first run of digits the pattern leaves no choice: the run
  must be taken whole (a digit is neither \<open>_\<close> nor \<open>H\<close>), and so must the second run.
\<close>

definition match_freq :: "string \<Rightarrow> string option" where
  "match_freq s =
     (let r1 = dropWhile is_digit s in
      if takeWhile is_digit s = [] then None
      else if take 2 r1 = ''Hz'' then Some (drop 2 r1)
      else if take 1 r1 = ''_'' then
        (let r2 = dropWhile is_digit (drop 1 r1) in
         if take 2 r2 = ''Hz'' then Some (drop 2 r2) else None)
      else None)"

text \<open>
  The strings that the pattern \<open>[0-9]+_?[0-9]*Hz\<close> matches, as the pattern reads: digits,
  at least one; an underscore or none; digits or none; \<open>Hz\<close>. \<open>match_freq\<close> is compared
  with it below (\<open>match_freq_iff\<close>).
\<close>

definition freq_token :: "string \<Rightarrow> bool" where
  "freq_token m =
     (\<exists>d1 u d2. m = d1 @ u @ d2 @ ''Hz'' \<and> d1 \<noteq> [] \<and> (\<forall>c\<in>set d1. is_digit c)
        \<and> (u = [] \<or> u = ''_'') \<and> (\<forall>c\<in>set d2. is_digit c))"

lemma match_freq_shorter: "match_freq s = Some r \<Longrightarrow> length r < length s"
proof -
  assume m: "match_freq s = Some r"
  have d: "takeWhile is_digit s \<noteq> []"
    using m by (auto simp: match_freq_def Let_def split: if_splits)
  have l1: "length (dropWhile is_digit s) < length s"
    using d by (metis length_append length_greater_0_conv
        less_add_same_cancel2 takeWhile_dropWhile_id)
  have l2: "length (dropWhile is_digit xs) \<le> length xs" for xs
    by (simp add: length_dropWhile_le)
  from m show ?thesis
    using l1 l2 [of "drop 1 (dropWhile is_digit s)"]
    by (auto simp: match_freq_def Let_def split: if_splits)
qed

text \<open>
  \<open>re.sub("[0-9]+_?[0-9]*Hz", "", s)\<close>: scanning from the left, every match is removed
  and the scan goes on behind it; a character where no match starts is kept.
\<close>

function re_sub_freq :: "string \<Rightarrow> string" where
  "re_sub_freq [] = []"
| "re_sub_freq (c # cs) =
     (case match_freq (c # cs) of
        Some rest \<Rightarrow> re_sub_freq rest
      | None \<Rightarrow> c # re_sub_freq cs)"
  by pat_completeness auto
termination
  by (relation "measure length") (auto dest: match_freq_shorter)

text \<open>
  \<open>re.split('\s\s', s)\<close>: the pieces between the non-overlapping pairs of whitespace
  characters, found from the left. \<open>acc\<close> is the current piece, reversed.
\<close>

fun split_ws2 :: "string \<Rightarrow> string \<Rightarrow> string list" where
  "split_ws2 acc (c # d # cs) =
     (if is_space c \<and> is_space d then rev acc # split_ws2 [] cs
      else split_ws2 (c # acc) (d # cs))"
| "split_ws2 acc [c] = [rev (c # acc)]"
| "split_ws2 acc [] = [rev acc]"

definition re_split :: "string \<Rightarrow> string list" where
  "re_split s = split_ws2 [] s"

text \<open>\<open>re.sub("  ", " ", s)\<close>: every pair of spaces, found from the left, becomes one space.\<close>

fun re_sub_2sp :: "string \<Rightarrow> string" where
  "re_sub_2sp (c # d # cs) =
     (if c = CHR '' '' \<and> d = CHR '' '' then CHR '' '' # re_sub_2sp cs
      else c # re_sub_2sp (d # cs))"
| "re_sub_2sp cs = cs"

section \<open>Errors\<close>

text \<open>
  The exceptions that the modelled code can raise. \<open>AssertionError\<close> carries the list of
  paths that the handler writes to the error log before it re-raises; the other
  constructors are the exceptions of the Python runtime and of \<open>os\<close>/\<open>shutil\<close>/\<open>PIL\<close>.
  \<open>OtherError\<close> stands for any exception of a collaborator that is not an
  \<open>AttributeError\<close>.
\<close>

datatype error =
    IndexError
  | AssertionError "string list"
  | AttributeError
  | TypeError
  | ValueError
  | FileNotFoundError
  | IsADirectoryError
  | NotADirectoryError
  | SameFileError
  | SystemExit
  | OtherError

section \<open>The frequency-group matcher\<close>

text \<open>
  The block shared by \<open>IQA_Thermo.Asses\<close>, \<open>Preprocess_Thermo.load_images\<close>,
  \<open>Enrichment_Thermo.load_images\<close> and \<open>Enrichment_Thermo.enrich\<close>.
\<close>

definition uip :: "string list \<Rightarrow> string list" where
  "uip image_paths = map (\<lambda>s. re_sub_freq (basename s)) image_paths"

text \<open>
  \<open>for composite_image_name in set(uip)\<close> visits every distinct name once, in an order
  that Python does not fix. The loops below run over a list \<open>names\<close>; it is an iteration
  order of \<open>set(uip)\<close> when \<open>set_order names (uip image_paths)\<close> holds.
\<close>

definition set_order :: "'a list \<Rightarrow> 'a list \<Rightarrow> bool" where
  "set_order names xs = (distinct names \<and> set names = set xs)"

text \<open>
  The two list comprehensions. \<open>split_path[0]\<close> always exists; \<open>split_path[1]\<close> is
  evaluated once for every path that the first comprehension kept, so a name without a
  separator raises \<open>IndexError\<close> only if the first comprehension kept a path.
\<close>

definition corresponding_paths :: "string list \<Rightarrow> string \<Rightarrow> error + string list" where
  "corresponding_paths image_paths composite_image_name =
     (case re_split composite_image_name of
        [] \<Rightarrow> Inl IndexError
      | p # rest \<Rightarrow>
          (let kept = filter (py_in p) image_paths in
           if kept = [] then Inr []
           else (case rest of
                   [] \<Rightarrow> Inl IndexError
                 | s # _ \<Rightarrow> Inr (filter (py_in s) kept))))"

text \<open>The assertion \<open>len(corresponding_paths) == 3\<close> with its logging handler.\<close>

definition assert_three :: "string list \<Rightarrow> string \<Rightarrow> error + string list" where
  "assert_three image_paths composite_image_name =
     (case corresponding_paths image_paths composite_image_name of
        Inl e \<Rightarrow> Inl e
      | Inr ps \<Rightarrow> if length ps = 3 then Inr ps else Inl (AssertionError ps))"

text \<open>
  The matcher on its own: the groups of all names in iteration order, or the first
  exception.
\<close>

fun matcher :: "string list \<Rightarrow> string list \<Rightarrow> error + (string \<times> string list) list" where
  "matcher image_paths [] = Inr []"
| "matcher image_paths (name # names) =
     (case assert_three image_paths name of
        Inl e \<Rightarrow> Inl e
      | Inr ps \<Rightarrow>
          (case matcher image_paths names of
             Inl e \<Rightarrow> Inl e
           | Inr gs \<Rightarrow> Inr ((name, ps) # gs)))"

section \<open>Image quality assessment\<close>

text \<open>
  One dictionary of \<open>composite_ls\<close>. The BRISQUE score of a file is a parameter
  \<open>get_score\<close> of the model; scores and threshold are real numbers.
\<close>

record composite_dict =
  composite_name :: string
  cd_image_paths :: "string list"
  scores :: "real list"
  passed :: "bool list"
  Composite_pass :: bool

definition make_composite_dict ::
  "(string \<Rightarrow> real) \<Rightarrow> real \<Rightarrow> string \<Rightarrow> string list \<Rightarrow> composite_dict" where
  "make_composite_dict get_score brisque_threshold name ps =
     (let sc = map get_score ps;
          pa = map (\<lambda>score. score < brisque_threshold) sc
      in \<lparr>composite_name = name, cd_image_paths = ps, scores = sc, passed = pa,
          Composite_pass = list_all (\<lambda>b. b = True) pa\<rparr>)"

text \<open>\<open>IQA_Thermo.Asses\<close>: the loop over the names, appending to \<open>composite_ls\<close>.\<close>

fun Asses_loop ::
  "(string \<Rightarrow> real) \<Rightarrow> real \<Rightarrow> string list \<Rightarrow> string list \<Rightarrow> composite_dict list
     \<Rightarrow> error + composite_dict list" where
  "Asses_loop get_score thr image_paths [] composite_ls = Inr composite_ls"
| "Asses_loop get_score thr image_paths (name # names) composite_ls =
     (case assert_three image_paths name of
        Inl e \<Rightarrow> Inl e
      | Inr ps \<Rightarrow>
          Asses_loop get_score thr image_paths names
            (composite_ls @ [make_composite_dict get_score thr name ps]))"

definition Asses ::
  "(string \<Rightarrow> real) \<Rightarrow> real \<Rightarrow> string list \<Rightarrow> string list \<Rightarrow> error + composite_dict list" where
  "Asses get_score thr image_paths names = Asses_loop get_score thr image_paths names []"

text \<open>
  A score assignment given by a table, for the examples: the listed paths have the listed
  scores, every other path has the score \<open>dflt\<close>.
\<close>

definition score_table :: "(string \<times> real) list \<Rightarrow> real \<Rightarrow> string \<Rightarrow> real" where
  "score_table tbl dflt path = (case map_of tbl path of Some s \<Rightarrow> s | None \<Rightarrow> dflt)"

section \<open>The file system\<close>

text \<open>
  A file system maps the path of a directory to its listing; an entry of a listing is a
  file with its content, or the name of a subdirectory. Paths are compared as they are
  written (no normalisation, no links). The content type \<open>'c\<close> is what a file holds: for
  the image files of the pipeline, the image.
\<close>

datatype 'c entry = File 'c | Dir

type_synonym 'c fs = "string \<Rightarrow> (string \<times> 'c entry) list option"

text \<open>\<open>os.path.dirname\<close>.\<close>

definition dirname :: "string \<Rightarrow> string" where
  "dirname p =
     (let head = rev (dropWhile (\<lambda>c. c \<noteq> CHR ''/'') (rev p)) in
      if head \<noteq> [] \<and> (\<exists>c\<in>set head. c \<noteq> CHR ''/'')
      then rev (dropWhile (\<lambda>c. c = CHR ''/'') (rev head))
      else head)"

definition lookup :: "'c fs \<Rightarrow> string \<Rightarrow> 'c entry option" where
  "lookup fs p = (case fs (dirname p) of None \<Rightarrow> None | Some l \<Rightarrow> map_of l (basename p))"

text \<open>\<open>os.path.exists\<close>: the path is a directory of the file system or an entry of one.\<close>

definition exists :: "'c fs \<Rightarrow> string \<Rightarrow> bool" where
  "exists fs p = (fs p \<noteq> None \<or> lookup fs p \<noteq> None)"

text \<open>\<open>os.makedirs\<close>: the new directory is empty.\<close>

definition makedirs :: "'c fs \<Rightarrow> string \<Rightarrow> 'c fs" where
  "makedirs fs d = fs(d \<mapsto> [])"

text \<open>\<open>os.remove\<close>: removes a file; a missing path and a directory are errors.\<close>

definition remove :: "'c fs \<Rightarrow> string \<Rightarrow> error + 'c fs" where
  "remove fs p =
     (case fs (dirname p) of
        None \<Rightarrow> Inl FileNotFoundError
      | Some l \<Rightarrow>
          (case map_of l (basename p) of
             None \<Rightarrow> Inl FileNotFoundError
           | Some Dir \<Rightarrow> Inl IsADirectoryError
           | Some (File c) \<Rightarrow> Inr (fs(dirname p \<mapsto> AList.delete (basename p) l))))"

text \<open>
  Opening a path for writing and writing the content, as \<open>copyfile\<close> and \<open>Image.save\<close>
  do: the directory must exist, and the path must not name a directory.
\<close>

definition write_file :: "'c fs \<Rightarrow> string \<Rightarrow> 'c \<Rightarrow> error + 'c fs" where
  "write_file fs p c =
     (case fs (dirname p) of
        None \<Rightarrow> Inl FileNotFoundError
      | Some l \<Rightarrow>
          if basename p = [] then Inl IsADirectoryError
          else (case map_of l (basename p) of
                  Some Dir \<Rightarrow> Inl IsADirectoryError
                | _ \<Rightarrow> Inr (fs(dirname p \<mapsto> AList.update (basename p) (File c) l))))"

text \<open>\<open>shutil.copyfile\<close>.\<close>

definition copyfile :: "'c fs \<Rightarrow> string \<Rightarrow> string \<Rightarrow> error + 'c fs" where
  "copyfile fs src dst =
     (if lookup fs src \<noteq> None \<and> dirname src = dirname dst \<and> basename src = basename dst
      then Inl SameFileError
      else (case lookup fs src of
              None \<Rightarrow> Inl FileNotFoundError
            | Some Dir \<Rightarrow> Inl IsADirectoryError
            | Some (File c) \<Rightarrow> write_file fs dst c))"

text \<open>
  The head of every \<open>save_images\<close>:
  \<^verbatim>\<open>
  if not exists(NewImageDir): makedirs(NewImageDir)
  else:
      for filename in listdir(NewImageDir): remove(join(NewImageDir, filename))
  \<close>
\<close>

fun remove_each :: "'c fs \<Rightarrow> string \<Rightarrow> string list \<Rightarrow> error + 'c fs" where
  "remove_each fs d [] = Inr fs"
| "remove_each fs d (filename # rest) =
     (case remove fs (join d filename) of
        Inl e \<Rightarrow> Inl e
      | Inr fs' \<Rightarrow> remove_each fs' d rest)"

definition clear_NewImageDir :: "'c fs \<Rightarrow> string \<Rightarrow> error + 'c fs" where
  "clear_NewImageDir fs NewImageDir =
     (if \<not> exists fs NewImageDir then Inr (makedirs fs NewImageDir)
      else (case fs NewImageDir of
              None \<Rightarrow> Inl NotADirectoryError
            | Some l \<Rightarrow> remove_each fs NewImageDir (map fst l)))"

text \<open>The two loops that fill the directory: copies of files, and saved images.\<close>

fun copy_each :: "'c fs \<Rightarrow> string \<Rightarrow> string list \<Rightarrow> error + 'c fs" where
  "copy_each fs d [] = Inr fs"
| "copy_each fs d (path # rest) =
     (case copyfile fs path (join d (basename path)) of
        Inl e \<Rightarrow> Inl e
      | Inr fs' \<Rightarrow> copy_each fs' d rest)"

fun save_each :: "'c fs \<Rightarrow> string \<Rightarrow> (string \<times> 'c) list \<Rightarrow> error + 'c fs" where
  "save_each fs d [] = Inr fs"
| "save_each fs d ((name, img) # rest) =
     (case write_file fs (join d name) img of
        Inl e \<Rightarrow> Inl e
      | Inr fs' \<Rightarrow> save_each fs' d rest)"

text \<open>
  The names in a directory, as a set: \<open>os.listdir\<close> gives them in an order that is not
  fixed. The loop of \<open>clear_NewImageDir\<close> takes them in the order of the listing.
\<close>

definition listdir :: "'c fs \<Rightarrow> string \<Rightarrow> string set" where
  "listdir fs d = (case fs d of None \<Rightarrow> {} | Some l \<Rightarrow> fst ` set l)"

text \<open>
  A directory path that \<open>join\<close> extends by a slash and the name: the stage directories
  \<open><working_dir>/<N>.<Stage>_images\<close> are of this kind.
\<close>

definition stage_dir :: "string \<Rightarrow> bool" where
  "stage_dir d = (d \<noteq> [] \<and> last d \<noteq> CHR ''/'')"

text \<open>The names of a listing are plain when none contains a slash.\<close>

definition plain_names :: "'c fs \<Rightarrow> string \<Rightarrow> bool" where
  "plain_names fs d = (\<forall>l. fs d = Some l \<longrightarrow> (\<forall>n\<in>fst ` set l. CHR ''/'' \<notin> set n))"

section \<open>Saving: acquisition and quality assessment\<close>

text \<open>\<open>Acquisition_Thermo.save_images\<close>.\<close>

definition Acquisition_save_images :: "string \<Rightarrow> string list \<Rightarrow> 'c fs \<Rightarrow> error + 'c fs" where
  "Acquisition_save_images Working_directory image_paths fs =
     (let NewImageDir = join Working_directory ''1.Acquired_images'' in
      case clear_NewImageDir fs NewImageDir of
        Inl e \<Rightarrow> Inl e
      | Inr fs1 \<Rightarrow> copy_each fs1 NewImageDir image_paths)"

text \<open>\<open>IQA_Thermo.save_images\<close>: the files of the dictionaries that passed are copied.\<close>

fun IQA_copy_passed :: "'c fs \<Rightarrow> string \<Rightarrow> composite_dict list \<Rightarrow> error + 'c fs" where
  "IQA_copy_passed fs d [] = Inr fs"
| "IQA_copy_passed fs d (cd # rest) =
     (if Composite_pass cd = True
      then (case copy_each fs d (cd_image_paths cd) of
              Inl e \<Rightarrow> Inl e
            | Inr fs' \<Rightarrow> IQA_copy_passed fs' d rest)
      else IQA_copy_passed fs d rest)"

definition IQA_save_images :: "string \<Rightarrow> composite_dict list \<Rightarrow> 'c fs \<Rightarrow> error + 'c fs" where
  "IQA_save_images Working_directory composite_ls fs =
     (let NewImageDir = join Working_directory ''2.IQA_images'' in
      case clear_NewImageDir fs NewImageDir of
        Inl e \<Rightarrow> Inl e
      | Inr fs1 \<Rightarrow> IQA_copy_passed fs1 NewImageDir composite_ls)"

text \<open>The paths that \<open>IQA_Thermo.save_images\<close> copies, in the order of the copies.\<close>

definition passed_paths :: "composite_dict list \<Rightarrow> string list" where
  "passed_paths composite_ls = concat (map cd_image_paths (filter Composite_pass composite_ls))"

section \<open>Loading the groups of preprocessing and enrichment\<close>

text \<open>
  The second half of \<open>Preprocess_Thermo.load_images\<close> and of
  \<open>Enrichment_Thermo.load_images\<close>: every name is checked as in \<open>Asses\<close>, and the three
  images are opened and stored in \<open>images_dict\<close> under their paths. The dictionary is an
  association list in insertion order; \<open>Image_open\<close> stands for \<open>PIL.Image.open\<close> on the
  files that \<open>glob\<close> listed.
\<close>

fun load_groups ::
  "(string \<Rightarrow> 'i) \<Rightarrow> string list \<Rightarrow> string list \<Rightarrow> (string \<times> 'i) list
     \<Rightarrow> error + (string \<times> 'i) list" where
  "load_groups Image_open image_paths [] images_dict = Inr images_dict"
| "load_groups Image_open image_paths (name # names) images_dict =
     (case assert_three image_paths name of
        Inl e \<Rightarrow> Inl e
      | Inr ps \<Rightarrow>
          load_groups Image_open image_paths names
            (fold (\<lambda>path d. AList.update path (Image_open path) d) ps images_dict))"

section \<open>Loading: the collaborator and the disk\<close>

text \<open>
  What \<open>load_images\<close> of IQA, preprocessing, enrichment and defect detection sees of its
  argument: \<open>None\<close>, or an object whose call \<open>load_images()\<close> raises or returns a value
  (\<open>Acquisition_Thermo\<close> returns the list of paths, the other products return \<open>None\<close>) and
  which has an attribute \<open>Image_directory\<close> or has none. A collaborator without the
  method is one whose call raises \<open>AttributeError\<close>. The state of the collaborator itself
  is not tracked.
\<close>

datatype pyvalue = PyNone | PyList "string list"

datatype call_result = Raises error | Returns pyvalue

datatype collaborator = NoCollaborator | Collaborator call_result "string option"

text \<open>The fields of a stage object that loading reads and writes.\<close>

record stage =
  self_Working_directory :: string
  self_Image_directory :: string
  self_image_paths :: pyvalue

text \<open>
  The environment of the fallback: \<open>os.path.exists\<close>, \<open>glob.glob\<close> on a pattern, and the
  line that the user types at the prompt.
\<close>

record env =
  env_exists :: "string \<Rightarrow> bool"
  env_glob :: "string \<Rightarrow> string list"
  env_input :: string

text \<open>
  The \<open>except AttributeError\<close> block. \<open>self.image_paths.extend\<close> raises
  \<open>AttributeError\<close> when \<open>image_paths\<close> is \<open>None\<close>; raised inside the handler, it is not
  caught. The directory is tested a second time after the globbing.
\<close>

definition disk_fallback :: "env \<Rightarrow> string list \<Rightarrow> stage \<Rightarrow> error + stage" where
  "disk_fallback e filetypes st =
     (let dir = (if \<not> env_exists e (self_Image_directory st) then env_input e
                 else self_Image_directory st)
      in case self_image_paths st of
           PyNone \<Rightarrow> if filetypes = [] then
                        (if \<not> env_exists e dir then Inl SystemExit
                         else Inr (st\<lparr>self_Image_directory := dir\<rparr>))
                     else Inl AttributeError
         | PyList ps \<Rightarrow>
             if \<not> env_exists e dir then Inl SystemExit
             else Inr (st\<lparr>self_Image_directory := dir,
                          self_image_paths :=
                            PyList (ps @ concat (map (\<lambda>filetype. env_glob e (join dir filetype))
                                                   filetypes))\<rparr>))"

text \<open>
  The \<open>try\<close> statement:
  \<^verbatim>\<open>
  try:
      self.image_paths = collaborator.load_images()
      self.Image_directory = collaborator.Image_directory
  except AttributeError:
      ...
  \<close>
  The first assignment has taken place when the second one raises. The logging call that
  ends the \<open>try\<close> block is taken not to raise.
\<close>

definition try_collaborator ::
  "env \<Rightarrow> string list \<Rightarrow> collaborator \<Rightarrow> stage \<Rightarrow> error + stage" where
  "try_collaborator e filetypes c st =
     (case c of
        NoCollaborator \<Rightarrow> disk_fallback e filetypes st
      | Collaborator (Raises x) dir \<Rightarrow>
          if x = AttributeError then disk_fallback e filetypes st else Inl x
      | Collaborator (Returns v) None \<Rightarrow> disk_fallback e filetypes (st\<lparr>self_image_paths := v\<rparr>)
      | Collaborator (Returns v) (Some d) \<Rightarrow>
          Inr (st\<lparr>self_image_paths := v, self_Image_directory := d\<rparr>))"

definition filetypes4 :: "string list" where
  "filetypes4 = [''*.png'', ''*.jpg'', ''*.tiff'', ''*.jpeg'']"

definition filetypes5 :: "string list" where
  "filetypes5 = [''*.png'', ''*.jpg'', ''*.tiff'', ''*.jpeg'', ''*.npy'']"

text \<open>
  \<open>IQA_Thermo.load_images\<close> and \<open>DefectDetection_Thermo.load_images\<close>: after the \<open>try\<close>
  statement the number of paths is logged, and \<open>len(None)\<close> raises \<open>TypeError\<close>.
\<close>

definition log_count :: "stage \<Rightarrow> error + stage" where
  "log_count st = (case self_image_paths st of PyNone \<Rightarrow> Inl TypeError | PyList ps \<Rightarrow> Inr st)"

definition IQA_load_images :: "env \<Rightarrow> collaborator \<Rightarrow> stage \<Rightarrow> error + stage" where
  "IQA_load_images e c st =
     (case try_collaborator e filetypes4 c st of Inl x \<Rightarrow> Inl x | Inr st' \<Rightarrow> log_count st')"

definition DefectDetection_load_images :: "env \<Rightarrow> collaborator \<Rightarrow> stage \<Rightarrow> error + stage" where
  "DefectDetection_load_images e c st =
     (case try_collaborator e filetypes5 c st of Inl x \<Rightarrow> Inl x | Inr st' \<Rightarrow> log_count st')"

text \<open>
  \<open>Preprocess_Thermo.load_images\<close> and \<open>Enrichment_Thermo.load_images\<close> (the same text):
  after the \<open>try\<close> statement the groups are checked and opened. Iterating over \<open>None\<close>
  raises \<open>TypeError\<close>. \<open>order\<close> gives the iteration order of \<open>set(uip)\<close>.
\<close>

definition Preprocess_load_images ::
  "env \<Rightarrow> (string list \<Rightarrow> string list) \<Rightarrow> (string \<Rightarrow> 'i) \<Rightarrow> collaborator \<Rightarrow> stage
     \<Rightarrow> (string \<times> 'i) list \<Rightarrow> error + stage \<times> (string \<times> 'i) list" where
  "Preprocess_load_images e order Image_open c st images_dict =
     (case try_collaborator e filetypes4 c st of
        Inl x \<Rightarrow> Inl x
      | Inr st' \<Rightarrow>
          (case self_image_paths st' of
             PyNone \<Rightarrow> Inl TypeError
           | PyList ps \<Rightarrow>
               (case load_groups Image_open ps (order (uip ps)) images_dict of
                  Inl x \<Rightarrow> Inl x
                | Inr d \<Rightarrow> Inr (st', d))))"

text \<open>
  An environment for the examples: one directory \<open>d\<close> exists, it holds the listed
  \<open>png\<close> files, and the user types nothing.
\<close>

definition one_dir_env :: "string \<Rightarrow> string list \<Rightarrow> env" where
  "one_dir_env d files =
     \<lparr>env_exists = (\<lambda>p. p = d),
      env_glob = (\<lambda>pattern. if pattern = join d ''*.png'' then files else []),
      env_input = []\<rparr>"

section \<open>Preprocessing\<close>

text \<open>
  A value of \<open>images_dict\<close> in preprocessing: a PIL image with 8-bit samples (as
  \<open>Preprocess_step1\<close> leaves it), an array of \<open>uint8\<close>, or an array of \<open>float64\<close>. The
  samples are listed in the order of the flattened array; the shape is not tracked, as
  the three steps work on the flattened samples. A \<open>uint8\<close> sample is a natural number
  below 256; a \<open>float64\<close> sample is the real number that it denotes. The quantiles
  of step 2 are taken in the real numbers; the arithmetic of step 3 is a parameter (see
  there). Every image has at least one sample.
\<close>

datatype pimage = PILImage "nat list" | ndarray_uint8 "nat list" | ndarray_float64 "real list"

text \<open>
  The conversion of a \<open>float64\<close> to \<open>uint8\<close> (assignment into a \<open>uint8\<close> array,
  \<open>astype(np.uint8)\<close>): the fraction is cut off, and the integer wraps modulo 256.
\<close>

definition cast_uint8 :: "real \<Rightarrow> nat" where
  "cast_uint8 v = nat ((if 0 \<le> v then \<lfloor>v\<rfloor> else \<lceil>v\<rceil>) mod 256)"

text \<open>
  \<open>np.quantile(arr, q)\<close> with the default linear method: the sample at position
  \<open>(n - 1) * q\<close> of the sorted samples, interpolated between its neighbours.
\<close>

definition np_quantile :: "real list \<Rightarrow> real \<Rightarrow> real" where
  "np_quantile arr q =
     (let s = sort arr;
          n = length s;
          v = real (n - 1) * q;
          lo = nat \<lfloor>v\<rfloor>;
          hi = min (lo + 1) (n - 1);
          g = v - real lo
      in s ! lo + (s ! hi - s ! lo) * g)"

text \<open>
  \<open>Preprocess_step2\<close> on one array: the two masked assignments
  \<^verbatim>\<open>
  res[arr > (Q3+IQR*1.5)] = Q3+IQR*1.5
  res[arr <= (Q1-IQR*1.5)] = Q1-IQR*1.5
  \<close>
  Both masks are taken on \<open>arr\<close>; the second assignment is the later one. \<open>store\<close> is
  the conversion to the type of the array.
\<close>

definition upper_bound :: "real list \<Rightarrow> real" where
  "upper_bound arr =
     (let Q1 = np_quantile arr 0.25; Q3 = np_quantile arr 0.75; IQR = Q3 - Q1
      in Q3 + IQR * 1.5)"

definition lower_bound :: "real list \<Rightarrow> real" where
  "lower_bound arr =
     (let Q1 = np_quantile arr 0.25; Q3 = np_quantile arr 0.75; IQR = Q3 - Q1
      in Q1 - IQR * 1.5)"

definition clip_samples :: "('a \<Rightarrow> real) \<Rightarrow> (real \<Rightarrow> 'a) \<Rightarrow> 'a list \<Rightarrow> 'a list" where
  "clip_samples value store arr =
     (let hi = upper_bound (map value arr);
          lo = lower_bound (map value arr);
          res1 = map (\<lambda>x. if value x > hi then store hi else x) arr
      in map (\<lambda>(x, r). if value x \<le> lo then store lo else r) (zip arr res1))"

definition Preprocess_step2_image :: "pimage \<Rightarrow> pimage" where
  "Preprocess_step2_image img =
     (case img of
        PILImage px \<Rightarrow> ndarray_uint8 (clip_samples real cast_uint8 px)
      | ndarray_uint8 a \<Rightarrow> ndarray_uint8 (clip_samples real cast_uint8 a)
      | ndarray_float64 a \<Rightarrow> ndarray_float64 (clip_samples (\<lambda>x. x) (\<lambda>x. x) a))"

definition Preprocess_step2 :: "(string \<times> pimage) list \<Rightarrow> (string \<times> pimage) list" where
  "Preprocess_step2 images_dict = map (\<lambda>(path, img). (path, Preprocess_step2_image img)) images_dict"

text \<open>
  The \<open>float64\<close> arithmetic of step 3. Every operation of numpy rounds its result, and
  the sum of an array is rounded in the order in which \<open>np.add.reduce\<close> adds. How the
  operations round is not fixed in the model: they are parameters, and a statement that
  is proved for every choice of them holds for the operations of numpy. Comparisons of
  \<open>float64\<close> values are exact, so they are the comparisons of the real numbers. The
  results of the operations are taken to be finite, as they are for image data.
\<close>

record float64_arith =
  fadd :: "real \<Rightarrow> real \<Rightarrow> real"
  fsub :: "real \<Rightarrow> real \<Rightarrow> real"
  fmul :: "real \<Rightarrow> real \<Rightarrow> real"
  fdiv :: "real \<Rightarrow> real \<Rightarrow> real"
  fsqrt :: "real \<Rightarrow> real"
  fsum :: "real list \<Rightarrow> real"

text \<open>
  The operations without rounding. An operation of \<open>float64\<close> gives the exact result
  whenever that result is a \<open>float64\<close>; it is so for every operation in the examples
  below, whose intermediate values are small integers or quarters.
\<close>

definition exact_arith :: float64_arith where
  "exact_arith = \<lparr>fadd = (\<lambda>x y. x + y), fsub = (\<lambda>x y. x - y), fmul = (\<lambda>x y. x * y),
            fdiv = (\<lambda>x y. x / y), fsqrt = sqrt, fsum = sum_list\<rparr>"

text \<open>
  \<open>arr.mean()\<close>: the sum divided by the number of samples. \<open>arr.std()\<close>: the mean is
  subtracted from every sample, the differences are multiplied with themselves and
  summed, the sum is divided by the number of samples, and the root is taken.
\<close>

definition mean :: "float64_arith \<Rightarrow> real list \<Rightarrow> real" where
  "mean f arr = fdiv f (fsum f arr) (real (length arr))"

definition std :: "float64_arith \<Rightarrow> real list \<Rightarrow> real" where
  "std f arr =
     (let arrmean = mean f arr;
          x = map (\<lambda>a. fsub f a arrmean) arr;
          x2 = map (\<lambda>d. fmul f d d) x
      in fsqrt f (fdiv f (fsum f x2) (real (length arr))))"

text \<open>
  \<open>np.interp(x, (x0, x1), (y0, y1))\<close> as numpy evaluates it on two points: above \<open>x1\<close>
  the right value, below \<open>x0\<close> the left value, at \<open>x1\<close> the last value, at \<open>x0\<close> the
  first, and \<open>slope*(x - x0) + y0\<close> otherwise, where \<open>slope\<close> is
  \<open>(y1 - y0) / (x1 - x0)\<close>. No test of \<open>x0 < x1\<close> is made. numpy can form the slope
  before it looks at the samples; its value is used in the last branch only, and a
  division by zero does not raise in \<open>float64\<close>.
\<close>

definition np_interp :: "float64_arith \<Rightarrow> real \<Rightarrow> real \<times> real \<Rightarrow> real \<times> real \<Rightarrow> real" where
  "np_interp f x xp fp =
     (case (xp, fp) of
        ((x0, x1), (y0, y1)) \<Rightarrow>
          if x > x1 then y1
          else if x < x0 then y0
          else if x \<ge> x1 then y1
          else if x = x0 then y0
          else fadd f (fmul f (fdiv f (fsub f y1 y0) (fsub f x1 x0)) (fsub f x x0)) y0)"

definition samples :: "pimage \<Rightarrow> real list" where
  "samples img =
     (case img of
        PILImage px \<Rightarrow> map real px
      | ndarray_uint8 a \<Rightarrow> map real a
      | ndarray_float64 a \<Rightarrow> a)"

text \<open>
  \<open>Preprocess_step3\<close>: the two ends \<open>m-sd*2\<close> and \<open>m+sd*2\<close> of the interval, and the
  interpolation of every sample. The source has no test of \<open>sd\<close>.
\<close>

definition lower_end :: "float64_arith \<Rightarrow> real list \<Rightarrow> real" where
  "lower_end f arr = (let m = mean f arr; sd = std f arr in fsub f m (fmul f sd 2))"

definition upper_end :: "float64_arith \<Rightarrow> real list \<Rightarrow> real" where
  "upper_end f arr = (let m = mean f arr; sd = std f arr in fadd f m (fmul f sd 2))"

definition Preprocess_step3_image :: "float64_arith \<Rightarrow> pimage \<Rightarrow> pimage" where
  "Preprocess_step3_image f img =
     (let arr = samples img
      in ndarray_float64
           (map (\<lambda>x. np_interp f x (lower_end f arr, upper_end f arr) (0, 255)) arr))"

definition Preprocess_step3 ::
  "float64_arith \<Rightarrow> (string \<times> pimage) list \<Rightarrow> (string \<times> pimage) list" where
  "Preprocess_step3 f images_dict =
     map (\<lambda>(path, img). (path, Preprocess_step3_image f img)) images_dict"

text \<open>
  The five cases of the interpolation of a sample \<open>x\<close> to a value \<open>y\<close>, for the ends
  \<open>lo\<close> and \<open>up\<close> as they were computed.
\<close>

definition interp_cases :: "float64_arith \<Rightarrow> real \<Rightarrow> real \<Rightarrow> real \<Rightarrow> real \<Rightarrow> bool" where
  "interp_cases f lo up x y =
     ((up < x \<longrightarrow> y = 255)
      \<and> (x \<le> up \<and> x < lo \<longrightarrow> y = 0)
      \<and> (x = up \<and> lo \<le> x \<longrightarrow> y = 255)
      \<and> (x = lo \<and> x < up \<longrightarrow> y = 0)
      \<and> (lo < x \<and> x < up \<longrightarrow>
            y = fadd f (fmul f (fdiv f (fsub f 255 0) (fsub f up lo)) (fsub f x lo)) 0))"

text \<open>
  The operations that step 3 performs on an array of \<open>n\<close> samples of the value \<open>c\<close>
  when none of them rounds. For an 8-bit image every one of these results is a
  \<open>float64\<close> (the sums are integers far below \<open>2 ^ 53\<close>), so the operations of numpy
  satisfy this.
\<close>

definition exact_on_constant :: "float64_arith \<Rightarrow> nat \<Rightarrow> real \<Rightarrow> bool" where
  "exact_on_constant f n c =
     (fsum f (replicate n c) = real n * c \<and> fdiv f (real n * c) (real n) = c
      \<and> fsub f c c = 0 \<and> fmul f 0 0 = 0
      \<and> fsum f (replicate n 0) = 0 \<and> fdiv f 0 (real n) = 0 \<and> fsqrt f 0 = 0
      \<and> fmul f 0 2 = 0 \<and> fsub f c 0 = c \<and> fadd f c 0 = c)"

text \<open>
  \<open>Preprocess_Thermo.save_images\<close>: an array is converted with \<open>astype(np.uint8)\<close>
  and made an image; the file holds the 8-bit samples.
\<close>

definition saved_samples :: "pimage \<Rightarrow> nat list" where
  "saved_samples img =
     (case img of
        PILImage px \<Rightarrow> px
      | ndarray_uint8 a \<Rightarrow> a
      | ndarray_float64 a \<Rightarrow> map cast_uint8 a)"

definition Preprocess_save_images ::
  "string \<Rightarrow> (string \<times> pimage) list \<Rightarrow> nat list fs \<Rightarrow> error + nat list fs" where
  "Preprocess_save_images Working_directory images_dict fs =
     (let NewImageDir = join Working_directory ''3.Preprocessed_images'' in
      case clear_NewImageDir fs NewImageDir of
        Inl e \<Rightarrow> Inl e
      | Inr fs1 \<Rightarrow>
          save_each fs1 NewImageDir
            (map (\<lambda>(path, img). (basename path, saved_samples img)) images_dict))"

section \<open>Enrichment\<close>

text \<open>
  A PIL image in enrichment: its mode, its size (width, height) and one list of samples
  for every band. \<open>Mode_L\<close> is the 8-bit single-band mode, \<open>Mode_RGB\<close> the three-band
  mode; every other mode is \<open>Mode_other\<close>.
\<close>

datatype mode = Mode_L | Mode_RGB | Mode_other

record pil_image =
  im_mode :: mode
  im_size :: "nat \<times> nat"
  im_bands :: "nat list list"

text \<open>
  \<open>Image.merge('RGB', images)\<close>. The elements are the results of \<open>images_dict.get\<close>, so
  \<open>None\<close> can be among them. PIL tests the number of images first; then, for the second and
  third image in turn, the mode (it has to be \<open>L\<close>) and the size against the first image.
  The mode of the first image is not tested: the core function \<open>merge\<close> only requires
  every image to have a single band, so a first image of another single-band mode (such
  as \<open>P\<close>) is merged. Attribute access on \<open>None\<close> raises \<open>AttributeError\<close>; the other
  failures are \<open>ValueError\<close>. The result has the size of the first image and the bands of
  the three images in their order.
\<close>

fun check_bands :: "pil_image option \<Rightarrow> pil_image option list \<Rightarrow> error option" where
  "check_bands first [] = None"
| "check_bands first (None # rest) = Some AttributeError"
| "check_bands first (Some band # rest) =
     (if im_mode band \<noteq> Mode_L then Some ValueError
      else (case first of
              None \<Rightarrow> Some AttributeError
            | Some f \<Rightarrow> if im_size band \<noteq> im_size f then Some ValueError
                        else check_bands first rest))"

definition Image_merge_RGB :: "pil_image option list \<Rightarrow> error + pil_image" where
  "Image_merge_RGB images =
     (if length images \<noteq> 3 then Inl ValueError
      else (case check_bands (hd images) (tl images) of
              Some e \<Rightarrow> Inl e
            | None \<Rightarrow>
                (case hd images of
                   None \<Rightarrow> Inl AttributeError
                 | Some f \<Rightarrow>
                     if \<exists>b\<in>set images. length (im_bands (the b)) \<noteq> 1 then Inl ValueError
                     else Inr \<lparr>im_mode = Mode_RGB, im_size = im_size f,
                               im_bands = concat (map (\<lambda>b. im_bands (the b)) images)\<rparr>)))"

text \<open>A single-channel image of a given size: mode \<open>L\<close> with its one band.\<close>

definition single_channel :: "pil_image \<Rightarrow> nat \<times> nat \<Rightarrow> bool" where
  "single_channel i sz = (im_mode i = Mode_L \<and> im_size i = sz \<and> length (im_bands i) = 1)"

text \<open>
  \<open>Enrichment_Thermo.enrich\<close>: for every name (of the paths in \<open>images_dict\<close>) the paths
  are selected from \<open>image_paths\<close>, their images are looked up and merged, and the result
  is stored under the name. There is no assertion here; the selection can raise
  \<open>IndexError\<close>.
\<close>

fun enrich_loop ::
  "string list \<Rightarrow> (string \<times> pil_image) list \<Rightarrow> string list \<Rightarrow> (string \<times> pil_image) list
     \<Rightarrow> error + (string \<times> pil_image) list" where
  "enrich_loop image_paths images_dict [] composites_im_dict = Inr composites_im_dict"
| "enrich_loop image_paths images_dict (name # names) composites_im_dict =
     (case corresponding_paths image_paths name of
        Inl e \<Rightarrow> Inl e
      | Inr ps \<Rightarrow>
          (case Image_merge_RGB (map (map_of images_dict) ps) of
             Inl e \<Rightarrow> Inl e
           | Inr merged \<Rightarrow>
               enrich_loop image_paths images_dict names
                 (AList.update name merged composites_im_dict)))"

definition enrich ::
  "(string list \<Rightarrow> string list) \<Rightarrow> string list \<Rightarrow> (string \<times> pil_image) list
     \<Rightarrow> (string \<times> pil_image) list \<Rightarrow> error + (string \<times> pil_image) list" where
  "enrich order image_paths images_dict composites_im_dict =
     enrich_loop image_paths images_dict (order (uip (map fst images_dict))) composites_im_dict"

text \<open>
  What the merge of the images of the paths \<open>ps\<close> has to be: a three-band image whose band
  \<open>k\<close> is the band of the image of path \<open>k\<close>, of the size of these images.
\<close>

definition merged_ok ::
  "(string \<times> pil_image) list \<Rightarrow> string list \<Rightarrow> pil_image \<Rightarrow> bool" where
  "merged_ok images_dict ps m =
     (im_mode m = Mode_RGB \<and> length (im_bands m) = 3 \<and>
      (\<forall>k<3. \<exists>i. map_of images_dict (ps ! k) = Some i \<and> im_size m = im_size i
                 \<and> im_bands i = [im_bands m ! k]))"

text \<open>
  \<open>Enrichment_Thermo.save_images\<close>: the file name is the name of the composite with
  every pair of spaces replaced by one space.
\<close>

definition Enrichment_save_images ::
  "string \<Rightarrow> (string \<times> pil_image) list \<Rightarrow> pil_image fs \<Rightarrow> error + pil_image fs" where
  "Enrichment_save_images Working_directory composites_im_dict fs =
     (let NewImageDir = join Working_directory ''4.Enrichment_images'' in
      case clear_NewImageDir fs NewImageDir of
        Inl e \<Rightarrow> Inl e
      | Inr fs1 \<Rightarrow>
          save_each fs1 NewImageDir
            (map (\<lambda>(composite_image_name, img). (re_sub_2sp composite_image_name, img))
               composites_im_dict))"

text \<open>No two neighbouring spaces in a string.\<close>

fun single_spaced :: "string \<Rightarrow> bool" where
  "single_spaced (c # d # cs) = (\<not> (c = CHR '' '' \<and> d = CHR '' '') \<and> single_spaced (d # cs))"
| "single_spaced cs = True"

section \<open>Defect detection\<close>

text \<open>
  One prediction of the model: box, class and score. The tensors \<open>pred_boxes\<close>,
  \<open>pred_classes\<close> and \<open>scores\<close> of a prediction are one list of predictions, in their
  order. A score is the real number that the float32 value denotes, and \<open>threshold\<close> is the
  value that the comparison \<open>scores > self.threshold\<close> uses, so the comparison is the
  order of the real numbers.
\<close>

record prediction =
  pred_box :: "real \<times> real \<times> real \<times> real"
  pred_class :: nat
  score :: real

text \<open>The three masked selections \<open>x[output_dict['scores'] > self.threshold]\<close>.\<close>

definition above_threshold :: "real \<Rightarrow> prediction list \<Rightarrow> prediction list" where
  "above_threshold threshold output_dict = filter (\<lambda>p. score p > threshold) output_dict"

text \<open>
  The calls into torch, torchvision and PIL are parameters, and each of them can raise:
  \<open>read_image\<close>, \<open>model.forward\<close>, the drawing of the boxes (\<open>draw_bounding_boxes\<close> with
  the colours of this run, and \<open>Image.fromarray\<close>), the loading of the font
  (\<open>ImageFont.truetype\<close>), the text of a score (\<open>str(scores[i])\<close>, which cannot raise) and
  the drawing of one text (\<open>Draw_img.text\<close>).
\<close>

record ('i, 'f, 'c) library =
  read_image :: "string \<Rightarrow> error + 'i"
  forward :: "'i \<Rightarrow> error + prediction list"
  draw_bounding_boxes :: "'i \<Rightarrow> prediction list \<Rightarrow> error + 'c"
  truetype :: "error + 'f"
  tensor_str :: "real \<Rightarrow> string"
  draw_text :: "'c \<Rightarrow> real \<times> real \<Rightarrow> string \<Rightarrow> 'f \<Rightarrow> error + 'c"

text \<open>
  \<open>re.search("0.[0-9]*", s)\<close> and \<open>group(0)\<close> of its result: the first \<open>0\<close> that is
  followed by a character other than a newline, that character, and the digits after it.
  When there is no such place the result is \<open>None\<close>.
\<close>

fun re_search_score :: "string \<Rightarrow> string option" where
  "re_search_score [] = None"
| "re_search_score [c] = None"
| "re_search_score (c # d # cs) =
     (if c = CHR ''0'' \<and> d \<noteq> CHR 0x0A then Some (c # d # takeWhile is_digit cs)
      else re_search_score (d # cs))"

text \<open>
  The loop over the kept boxes: \<open>match.group(0)\<close> on \<open>None\<close> raises \<open>AttributeError\<close>;
  the text is drawn at the corner \<open>box[2:]\<close>.
\<close>

fun draw_scores ::
  "('i, 'f, 'c) library \<Rightarrow> 'f \<Rightarrow> prediction list \<Rightarrow> 'c \<Rightarrow> error + 'c" where
  "draw_scores lib font [] Draw_img = Inr Draw_img"
| "draw_scores lib font (p # kept) Draw_img =
     (case re_search_score (tensor_str lib (score p)) of
        None \<Rightarrow> Inl AttributeError
      | Some score_str \<Rightarrow>
          (case draw_text lib Draw_img (snd (snd (pred_box p))) score_str font of
             Inl e \<Rightarrow> Inl e
           | Inr drawn \<Rightarrow> draw_scores lib font kept drawn))"

text \<open>The statements of the loop body after \<open>continue\<close>, up to the assignment.\<close>

definition annotate ::
  "('i, 'f, 'c) library \<Rightarrow> 'i \<Rightarrow> prediction list \<Rightarrow> error + 'c" where
  "annotate lib img_int kept =
     (case draw_bounding_boxes lib img_int kept of
        Inl e \<Rightarrow> Inl e
      | Inr defect_detected_img \<Rightarrow>
          (case truetype lib of
             Inl e \<Rightarrow> Inl e
           | Inr font \<Rightarrow> draw_scores lib font kept defect_detected_img))"

text \<open>
  \<open>DefectDetection_Thermo.defect_detection\<close>: an image without a prediction above the
  threshold is skipped (\<open>continue\<close>); the others are stored, annotated, under their path.
  An exception of a call leaves the method, and the images after it are not visited.
\<close>

fun defect_detection ::
  "('i, 'f, 'c) library \<Rightarrow> real \<Rightarrow> string list \<Rightarrow> (string \<times> 'c) list
     \<Rightarrow> error + (string \<times> 'c) list" where
  "defect_detection lib threshold [] defect_images_dict = Inr defect_images_dict"
| "defect_detection lib threshold (image_path # rest) defect_images_dict =
     (case read_image lib image_path of
        Inl e \<Rightarrow> Inl e
      | Inr img_int \<Rightarrow>
          (case forward lib img_int of
             Inl e \<Rightarrow> Inl e
           | Inr output_dict \<Rightarrow>
               (let kept = above_threshold threshold output_dict
                in if length kept = 0
                   then defect_detection lib threshold rest defect_images_dict
                   else (case annotate lib img_int kept of
                           Inl e \<Rightarrow> Inl e
                         | Inr defect_detected_img \<Rightarrow>
                             defect_detection lib threshold rest
                               (AList.update image_path defect_detected_img
                                  defect_images_dict)))))"

text \<open>\<open>DefectDetection_Thermo.save_images\<close>.\<close>

definition DefectDetection_save_images ::
  "string \<Rightarrow> (string \<times> 'c) list \<Rightarrow> 'c fs \<Rightarrow> error + 'c fs" where
  "DefectDetection_save_images Working_directory defect_images_dict fs =
     (let NewImageDir = join Working_directory ''5.DefectDetected_images'' in
      case clear_NewImageDir fs NewImageDir of
        Inl e \<Rightarrow> Inl e
      | Inr fs1 \<Rightarrow>
          save_each fs1 NewImageDir
            (map (\<lambda>(path, img). (basename path, img)) defect_images_dict))"

text \<open>
  A library for the examples. An image is its own path; \<open>d/a.png\<close> has two predictions
  with the scores 0.75 and 0.25, \<open>d/c.png\<close> has one prediction with the score 1, and every
  other image has one prediction with the score 0.125. The texts of these scores are the
  ones that torch prints. The annotated image is the path, the number of boxes drawn and
  the texts drawn, with their places.
\<close>

definition example_forward :: "string \<Rightarrow> error + prediction list" where
  "example_forward img =
     (if img = ''d/a.png''
      then Inr [\<lparr>pred_box = (0, 0, 1, 1), pred_class = 0, score = 0.75\<rparr>,
                \<lparr>pred_box = (1, 1, 2, 2), pred_class = 1, score = 0.25\<rparr>]
      else if img = ''d/c.png''
      then Inr [\<lparr>pred_box = (0, 0, 1, 1), pred_class = 0, score = 1\<rparr>]
      else Inr [\<lparr>pred_box = (0, 0, 1, 1), pred_class = 0, score = 0.125\<rparr>])"

definition example_tensor_str :: "real \<Rightarrow> string" where
  "example_tensor_str s =
     (if s = 0.75 then ''tensor(0.7500)''
      else if s = 0.25 then ''tensor(0.2500)''
      else if s = 0.125 then ''tensor(0.1250)''
      else ''tensor(1.)'')"

definition example_library ::
  "(string, unit, string \<times> nat \<times> ((real \<times> real) \<times> string) list) library" where
  "example_library =
     \<lparr>read_image = (\<lambda>path. Inr path),
      forward = example_forward,
      draw_bounding_boxes = (\<lambda>img kept. Inr (img, length kept, [])),
      truetype = Inr (),
      tensor_str = example_tensor_str,
      draw_text = (\<lambda>img xy txt font. case img of (path, n, txts) \<Rightarrow>
                     Inr (path, n, txts @ [(xy, txt)]))\<rparr>"
section \<open>The anchored matcher and the pattern\<close>

text \<open>
  At every position the pattern has at most one match, and \<open>match_freq\<close> finds it: the
  order in which a backtracking matcher tries the alternatives does not change the result
  of \<open>re.sub\<close>.
\<close>

lemma freq_tokenI:
  "d1 \<noteq> [] \<Longrightarrow> \<forall>c\<in>set d1. is_digit c \<Longrightarrow> u = [] \<or> u = ''_'' \<Longrightarrow>
   \<forall>c\<in>set d2. is_digit c \<Longrightarrow> freq_token (d1 @ u @ d2 @ ''Hz'')"
  unfolding freq_token_def by blast

lemma not_digit_H: "\<not> is_digit CHR ''H''" and not_digit_underscore: "\<not> is_digit CHR ''_''"
  by (simp_all add: is_digit_def)

lemma takeWhile_run:
  "\<forall>c\<in>set ds. P c \<Longrightarrow> \<not> P x \<Longrightarrow> takeWhile P (ds @ x # rest) = ds"
  by (induction ds) auto

lemma dropWhile_run:
  "\<forall>c\<in>set ds. P c \<Longrightarrow> \<not> P x \<Longrightarrow> dropWhile P (ds @ x # rest) = x # rest"
  by (induction ds) auto

lemma match_freq_complete:
  assumes "freq_token m"
  shows "match_freq (m @ r) = Some r"
proof -
  from assms obtain d1 u d2 where m: "m = d1 @ u @ d2 @ ''Hz''" and d1: "d1 \<noteq> []"
    "\<forall>c\<in>set d1. is_digit c" and u: "u = [] \<or> u = ''_''" and d2: "\<forall>c\<in>set d2. is_digit c"
    unfolding freq_token_def by blast
  from u show ?thesis
  proof
    assume "u = []"
    then have s: "m @ r = (d1 @ d2) @ CHR ''H'' # CHR ''z'' # r" using m by simp
    have all: "\<forall>c\<in>set (d1 @ d2). is_digit c" using d1 d2 by auto
    have "takeWhile is_digit (m @ r) = d1 @ d2"
      unfolding s by (rule takeWhile_run [OF all not_digit_H])
    moreover have "dropWhile is_digit (m @ r) = CHR ''H'' # CHR ''z'' # r"
      unfolding s by (rule dropWhile_run [OF all not_digit_H])
    ultimately show ?thesis using d1 by (simp add: match_freq_def)
  next
    assume "u = ''_''"
    then have s: "m @ r = d1 @ CHR ''_'' # (d2 @ CHR ''H'' # CHR ''z'' # r)" using m by simp
    have "takeWhile is_digit (m @ r) = d1"
      unfolding s by (rule takeWhile_run [OF d1(2) not_digit_underscore])
    moreover have "dropWhile is_digit (m @ r) = CHR ''_'' # (d2 @ CHR ''H'' # CHR ''z'' # r)"
      unfolding s by (rule dropWhile_run [OF d1(2) not_digit_underscore])
    moreover have "dropWhile is_digit (d2 @ CHR ''H'' # CHR ''z'' # r) = CHR ''H'' # CHR ''z'' # r"
      by (rule dropWhile_run [OF d2 not_digit_H])
    moreover have "take 2 (CHR ''_'' # (d2 @ CHR ''H'' # CHR ''z'' # r)) \<noteq> ''Hz''"
      by (simp add: numeral_2_eq_2)
    ultimately show ?thesis using d1 by (simp add: match_freq_def)
  qed
qed

lemma take2_Hz: "take 2 xs = ''Hz'' \<Longrightarrow> xs = ''Hz'' @ drop 2 xs"
  by (metis append_take_drop_id)

lemma take1_us: "take 1 xs = ''_'' \<Longrightarrow> xs = ''_'' @ drop 1 xs"
  by (metis append_take_drop_id)

lemma match_freq_sound:
  assumes "match_freq s = Some r"
  shows "\<exists>m. freq_token m \<and> s = m @ r"
proof -
  let ?d1 = "takeWhile is_digit s" and ?r1 = "dropWhile is_digit s"
  have s: "s = ?d1 @ ?r1" by simp
  have d1: "?d1 \<noteq> []" using assms by (auto simp: match_freq_def Let_def split: if_splits)
  have dig: "\<forall>c\<in>set ?d1. is_digit c" by (meson set_takeWhileD)
  show ?thesis
  proof (cases "take 2 ?r1 = ''Hz''")
    case True
    with assms d1 have r: "r = drop 2 ?r1" by (simp add: match_freq_def Let_def)
    from take2_Hz [OF True] r have x: "dropWhile is_digit s = ''Hz'' @ r" by simp
    have "s = (?d1 @ [] @ [] @ ''Hz'') @ r"
      by (subst s) (simp add: x)
    moreover have "freq_token (?d1 @ [] @ [] @ ''Hz'')"
      by (rule freq_tokenI [OF d1 dig]) simp_all
    ultimately show ?thesis by (intro exI [of _ "?d1 @ [] @ [] @ ''Hz''"] conjI)
  next
    case False
    define r1 where "r1 = dropWhile is_digit s"
    define t where "t = drop 1 r1"
    define d2 where "d2 = takeWhile is_digit t"
    define r2 where "r2 = dropWhile is_digit t"
    have m: "match_freq s =
        (if take 1 r1 = ''_'' then (if take 2 r2 = ''Hz'' then Some (drop 2 r2) else None)
         else None)"
      using d1 False by (simp add: match_freq_def Let_def r1_def t_def r2_def)
    from assms m have us: "take 1 r1 = ''_''" by (simp split: if_splits)
    from assms m us have hz: "take 2 r2 = ''Hz''" by (simp split: if_splits)
    from assms m us hz have r: "drop 2 r2 = r" by simp
    have e1: "s = takeWhile is_digit s @ r1" by (simp add: r1_def)
    have e2: "r1 = ''_'' @ t" unfolding t_def by (rule take1_us [OF us])
    have e3: "t = d2 @ r2" by (simp add: d2_def r2_def)
    have e4: "r2 = ''Hz'' @ r" using take2_Hz [OF hz] r by simp
    have "s = (takeWhile is_digit s @ ''_'' @ d2 @ ''Hz'') @ r"
      by (subst e1, subst e2, subst e3, subst e4) simp
    moreover have "\<forall>c\<in>set d2. is_digit c" unfolding d2_def by (meson set_takeWhileD)
    then have "freq_token (takeWhile is_digit s @ ''_'' @ d2 @ ''Hz'')"
      by (intro freq_tokenI [OF d1 dig]) simp_all
    ultimately show ?thesis
      by (intro exI [of _ "takeWhile is_digit s @ ''_'' @ d2 @ ''Hz''"] conjI)
  qed
qed

lemma match_freq_iff: "match_freq s = Some r \<longleftrightarrow> (\<exists>m. freq_token m \<and> s = m @ r)"
  using match_freq_sound match_freq_complete by blast

lemma freq_token_unique:
  assumes "freq_token m" "freq_token m'" "m @ r = m' @ r'"
  shows "m = m'"
proof -
  from match_freq_complete [OF assms(1), of r] match_freq_complete [OF assms(2), of r'] assms(3)
  have "r = r'" by simp
  with assms(3) show ?thesis by simp
qed

section \<open>Paths\<close>

lemma join_stage_dir:
  "s \<noteq> [] \<Longrightarrow> hd s \<noteq> CHR ''/'' \<Longrightarrow> last s \<noteq> CHR ''/'' \<Longrightarrow> stage_dir (join wd s)"
  by (auto simp: stage_dir_def join_def)

lemma basename_no_slash: "CHR ''/'' \<notin> set (basename p)"
  unfolding basename_def using set_takeWhileD [of "CHR ''/''" "\<lambda>c. c \<noteq> CHR ''/''" "rev p"]
  by auto

lemma join_plain:
  "stage_dir d \<Longrightarrow> CHR ''/'' \<notin> set n \<Longrightarrow> join d n = d @ ''/'' @ n"
  by (cases n) (auto simp: stage_dir_def join_def)

lemma basename_join:
  assumes "stage_dir d" "CHR ''/'' \<notin> set n"
  shows "basename (join d n) = n"
proof -
  have "takeWhile (\<lambda>c. c \<noteq> CHR ''/'') (rev n @ CHR ''/'' # rev d)
      = rev n @ takeWhile (\<lambda>c. c \<noteq> CHR ''/'') (CHR ''/'' # rev d)"
    by (rule takeWhile_append2) (use assms(2) in auto)
  then show ?thesis using assms by (simp add: join_plain basename_def)
qed

lemma dirname_join:
  assumes "stage_dir d" "CHR ''/'' \<notin> set n"
  shows "dirname (join d n) = d"
proof -
  have "dropWhile (\<lambda>c. c \<noteq> CHR ''/'') (rev n @ CHR ''/'' # rev d)
      = dropWhile (\<lambda>c. c \<noteq> CHR ''/'') (CHR ''/'' # rev d)"
    by (rule dropWhile_append2) (use assms(2) in auto)
  then have 1: "dropWhile (\<lambda>c. c \<noteq> CHR ''/'') (rev n @ CHR ''/'' # rev d) = CHR ''/'' # rev d"
    by simp
  have 2: "dropWhile (\<lambda>c. c = CHR ''/'') (rev d) = rev d"
    using assms(1) by (cases "rev d") (auto simp: stage_dir_def last_rev hd_rev)
  have 3: "\<exists>c\<in>set d. c \<noteq> CHR ''/''"
    using assms(1) unfolding stage_dir_def by (meson last_in_set)
  show ?thesis using assms 1 2 3 by (simp add: join_plain dirname_def)
qed

section \<open>Clearing and filling a stage directory\<close>

text \<open>The equations that evaluate the file operations on a given file system.\<close>

lemmas fs_eval = join_def clear_NewImageDir_def exists_def lookup_def dirname_def basename_def
  makedirs_def copyfile_def write_file_def remove_def listdir_def

lemma remove_in_dir:
  assumes "stage_dir d" "CHR ''/'' \<notin> set n" "remove fs (join d n) = Inr fs'"
  shows "\<exists>l. fs d = Some l \<and> fs' = fs(d \<mapsto> AList.delete n l)"
  using assms by (auto simp: remove_def dirname_join basename_join split: option.splits entry.splits)

lemma remove_each_empties:
  "remove_each fs d ns = Inr fs' \<Longrightarrow> stage_dir d \<Longrightarrow> CHR ''/'' \<notin> \<Union>(set ` set ns) \<Longrightarrow>
   fs d = Some l \<Longrightarrow> fst ` set l \<subseteq> set ns \<Longrightarrow>
   fs' d = Some [] \<and> (\<forall>d'. d' \<noteq> d \<longrightarrow> fs' d' = fs d')"
proof (induction ns arbitrary: fs l)
  case Nil
  then show ?case by simp
next
  case (Cons n ns)
  from Cons.prems(1) obtain fs1 where r: "remove fs (join d n) = Inr fs1"
    and rest: "remove_each fs1 d ns = Inr fs'"
    by (auto split: sum.splits)
  from Cons.prems have n: "CHR ''/'' \<notin> set n" by auto
  from remove_in_dir [OF Cons.prems(2) n r] Cons.prems(4)
  have fs1: "fs1 = fs(d \<mapsto> AList.delete n l)" by auto
  have sub: "fst ` set (AList.delete n l) \<subseteq> set ns"
    using Cons.prems(5) by (auto simp: AList.delete_eq)
  have "fs' d = Some [] \<and> (\<forall>d'. d' \<noteq> d \<longrightarrow> fs' d' = fs1 d')"
    by (rule Cons.IH [OF rest Cons.prems(2) _ _ sub]) (use Cons.prems(3) fs1 in auto)
  then show ?case using fs1 by auto
qed

lemma clear_NewImageDir_empties:
  assumes "clear_NewImageDir fs d = Inr fs1" "stage_dir d" "plain_names fs d"
  shows "fs1 d = Some [] \<and> (\<forall>d'. d' \<noteq> d \<longrightarrow> fs1 d' = fs d')"
proof (cases "exists fs d")
  case False
  with assms(1) show ?thesis by (auto simp: clear_NewImageDir_def makedirs_def)
next
  case True
  with assms(1) obtain l where l: "fs d = Some l" and r: "remove_each fs d (map fst l) = Inr fs1"
    by (auto simp: clear_NewImageDir_def split: option.splits)
  have "CHR ''/'' \<notin> \<Union>(set ` set (map fst l))"
    using assms(3) l by (auto simp: plain_names_def)
  from remove_each_empties [OF r assms(2) this l] show ?thesis by simp
qed

lemma write_file_in_dir:
  assumes "stage_dir d" "CHR ''/'' \<notin> set n" "write_file fs (join d n) c = Inr fs'"
  shows "\<exists>l. fs d = Some l \<and> fs' = fs(d \<mapsto> AList.update n (File c) l)"
  using assms
  by (auto simp: write_file_def dirname_join basename_join split: option.splits entry.splits if_splits)

lemma save_each_listing:
  "save_each fs d items = Inr fs' \<Longrightarrow> stage_dir d \<Longrightarrow> CHR ''/'' \<notin> \<Union>(set ` fst ` set items) \<Longrightarrow>
   fs d = Some l \<Longrightarrow>
   \<exists>l'. fs' d = Some l' \<and> fst ` set l' = fst ` set l \<union> fst ` set items
     \<and> (\<forall>n e. map_of l' n = Some e \<longrightarrow> map_of l n = Some e \<or> (\<exists>c. e = File c \<and> (n, c) \<in> set items))"
proof (induction items arbitrary: fs l)
  case Nil
  then show ?case by simp
next
  case (Cons it items)
  obtain n c where it: "it = (n, c)" by (cases it)
  from Cons.prems(1) it obtain fs1 where w: "write_file fs (join d n) c = Inr fs1"
    and rest: "save_each fs1 d items = Inr fs'"
    by (auto split: sum.splits)
  from Cons.prems(3) it have n: "CHR ''/'' \<notin> set n" by auto
  from write_file_in_dir [OF Cons.prems(2) n w] Cons.prems(4)
  have fs1: "fs1 d = Some (AList.update n (File c) l)" by auto
  have "CHR ''/'' \<notin> \<Union>(set ` fst ` set items)" using Cons.prems(3) by auto
  from Cons.IH [OF rest Cons.prems(2) this fs1]
  obtain l' where l': "fs' d = Some l'"
    "fst ` set l' = fst ` set (AList.update n (File c) l) \<union> fst ` set items"
    "\<forall>m e. map_of l' m = Some e \<longrightarrow> map_of (AList.update n (File c) l) m = Some e
        \<or> (\<exists>c. e = File c \<and> (m, c) \<in> set items)"
    by blast
  have dom: "fst ` set (AList.update n (File c) l) = insert n (fst ` set l)"
    using dom_update [of n "File c" l] by simp
  show ?case
    using l' dom it by (auto simp: update_conv' split: if_splits)
qed

lemma copyfile_in_dir:
  assumes "stage_dir d" "copyfile fs src (join d (basename src)) = Inr fs'"
  shows "\<exists>l c. fs d = Some l \<and> lookup fs src = Some (File c)
           \<and> fs' = fs(d \<mapsto> AList.update (basename src) (File c) l)"
proof -
  from assms(2) obtain c where c: "lookup fs src = Some (File c)"
    and w: "write_file fs (join d (basename src)) c = Inr fs'"
    by (auto simp: copyfile_def split: if_splits option.splits entry.splits)
  from write_file_in_dir [OF assms(1) basename_no_slash w] c show ?thesis by auto
qed

lemma copy_each_listing:
  "copy_each fs d paths = Inr fs' \<Longrightarrow> stage_dir d \<Longrightarrow> fs d = Some l \<Longrightarrow>
   \<exists>l'. fs' d = Some l' \<and> fst ` set l' = fst ` set l \<union> basename ` set paths"
proof (induction paths arbitrary: fs l)
  case Nil
  then show ?case by simp
next
  case (Cons p paths)
  from Cons.prems(1) obtain fs1 where c: "copyfile fs p (join d (basename p)) = Inr fs1"
    and rest: "copy_each fs1 d paths = Inr fs'"
    by (auto split: sum.splits)
  from copyfile_in_dir [OF Cons.prems(2) c] Cons.prems(3)
  obtain x where fs1: "fs1 d = Some (AList.update (basename p) (File x) l)" by auto
  from Cons.IH [OF rest Cons.prems(2) fs1]
  obtain l' where l': "fs' d = Some l'"
    "fst ` set l' = fst ` set (AList.update (basename p) (File x) l) \<union> basename ` set paths"
    by blast
  have dom: "fst ` set (AList.update (basename p) (File x) l) = insert (basename p) (fst ` set l)"
    using dom_update [of "basename p" "File x" l] by simp
  show ?case using l' dom by auto
qed

lemma IQA_copy_passed_listing:
  "IQA_copy_passed fs d composite_ls = Inr fs' \<Longrightarrow> stage_dir d \<Longrightarrow> fs d = Some l \<Longrightarrow>
   \<exists>l'. fs' d = Some l' \<and>
     fst ` set l' = fst ` set l \<union>
       basename ` set (passed_paths composite_ls)"
proof (induction composite_ls arbitrary: fs l)
  case Nil
  then show ?case by (simp add: passed_paths_def)
next
  case (Cons cd ls)
  show ?case
  proof (cases "Composite_pass cd")
    case False
    with Cons.prems have "IQA_copy_passed fs d ls = Inr fs'" by simp
    from Cons.IH [OF this Cons.prems(2,3)] False show ?thesis by (simp add: passed_paths_def)
  next
    case True
    with Cons.prems(1) obtain fs1 where c: "copy_each fs d (cd_image_paths cd) = Inr fs1"
      and rest: "IQA_copy_passed fs1 d ls = Inr fs'"
      by (auto split: sum.splits)
    from copy_each_listing [OF c Cons.prems(2,3)]
    obtain l1 where l1: "fs1 d = Some l1"
      "fst ` set l1 = fst ` set l \<union> basename ` set (cd_image_paths cd)" by blast
    from Cons.IH [OF rest Cons.prems(2) l1(1)]
    obtain l' where l': "fs' d = Some l'"
      "fst ` set l' = fst ` set l1 \<union> basename ` set (passed_paths ls)"
      by blast
    show ?thesis using l' l1(2) True by (auto simp: passed_paths_def)
  qed
qed

lemma IQA_save_images_listing:
  assumes "IQA_save_images wd composite_ls fs = Inr fs'"
    and "plain_names fs (join wd ''2.IQA_images'')"
  shows "listdir fs' (join wd ''2.IQA_images'') =
     basename ` set (passed_paths composite_ls)"
proof -
  let ?d = "join wd ''2.IQA_images''"
  have d: "stage_dir ?d" by (rule join_stage_dir) simp_all
  from assms(1) obtain fs1 where c: "clear_NewImageDir fs ?d = Inr fs1"
    and r: "IQA_copy_passed fs1 ?d composite_ls = Inr fs'"
    by (auto simp: IQA_save_images_def Let_def split: sum.splits)
  from clear_NewImageDir_empties [OF c d assms(2)] have "fs1 ?d = Some []" by simp
  from IQA_copy_passed_listing [OF r d this] show ?thesis
    by (auto simp: listdir_def simp del: set_concat)
qed

lemma Acquisition_save_images_listing:
  assumes "Acquisition_save_images wd image_paths fs = Inr fs'"
    and "plain_names fs (join wd ''1.Acquired_images'')"
  shows "listdir fs' (join wd ''1.Acquired_images'') = basename ` set image_paths"
proof -
  let ?d = "join wd ''1.Acquired_images''"
  have d: "stage_dir ?d" by (rule join_stage_dir) simp_all
  from assms(1) obtain fs1 where c: "clear_NewImageDir fs ?d = Inr fs1"
    and r: "copy_each fs1 ?d image_paths = Inr fs'"
    by (auto simp: Acquisition_save_images_def Let_def split: sum.splits)
  from clear_NewImageDir_empties [OF c d assms(2)] have "fs1 ?d = Some []" by simp
  from copy_each_listing [OF r d this] show ?thesis
    by (auto simp: listdir_def)
qed

lemma save_stage_listing:
  assumes "clear_NewImageDir fs d = Inr fs1" "save_each fs1 d items = Inr fs'"
    "stage_dir d" "plain_names fs d" "\<forall>n\<in>fst ` set items. CHR ''/'' \<notin> set n"
  shows "\<exists>l. fs' d = Some l \<and> fst ` set l = fst ` set items
     \<and> (\<forall>n e. map_of l n = Some e \<longrightarrow> (\<exists>c. e = File c \<and> (n, c) \<in> set items))"
proof -
  from clear_NewImageDir_empties [OF assms(1,3,4)] have e: "fs1 d = Some []" by simp
  have "CHR ''/'' \<notin> \<Union>(set ` fst ` set items)" using assms(5) by auto
  from save_each_listing [OF assms(2,3) this e] show ?thesis by auto
qed

lemma listdir_plain:
  "fs d = Some l \<Longrightarrow> \<forall>n\<in>fst ` set l. CHR ''/'' \<notin> set n \<Longrightarrow> plain_names fs d"
  by (simp add: plain_names_def)

lemma set_re_sub_2sp: "set (re_sub_2sp s) \<subseteq> set s"
  by (induction s rule: re_sub_2sp.induct) auto

lemma Preprocess_save_images_listing:
  assumes "Preprocess_save_images wd images_dict fs = Inr fs'"
    and "plain_names fs (join wd ''3.Preprocessed_images'')"
  shows "\<exists>l. fs' (join wd ''3.Preprocessed_images'') = Some l
     \<and> fst ` set l = basename ` fst ` set images_dict
     \<and> (\<forall>n e. map_of l n = Some e \<longrightarrow>
           (\<exists>path img. (path, img) \<in> set images_dict \<and> n = basename path
              \<and> e = File (saved_samples img)))"
proof -
  let ?d = "join wd ''3.Preprocessed_images''"
  let ?items = "map (\<lambda>(path, img). (basename path, saved_samples img)) images_dict"
  have d: "stage_dir ?d" by (rule join_stage_dir) simp_all
  from assms(1) obtain fs1 where c: "clear_NewImageDir fs ?d = Inr fs1"
    and s: "save_each fs1 ?d ?items = Inr fs'"
    by (auto simp: Preprocess_save_images_def Let_def split: sum.splits)
  have p: "\<forall>n\<in>fst ` set ?items. CHR ''/'' \<notin> set n"
    using basename_no_slash by auto
  have k: "fst ` set ?items = basename ` fst ` set images_dict" by force
  from save_stage_listing [OF c s d assms(2) p] k show ?thesis by fastforce
qed

lemma Enrichment_save_images_listing:
  assumes "Enrichment_save_images wd composites_im_dict fs = Inr fs'"
    and "plain_names fs (join wd ''4.Enrichment_images'')"
    and "\<forall>n\<in>fst ` set composites_im_dict. CHR ''/'' \<notin> set n"
  shows "\<exists>l. fs' (join wd ''4.Enrichment_images'') = Some l
     \<and> fst ` set l = re_sub_2sp ` fst ` set composites_im_dict
     \<and> (\<forall>n e. map_of l n = Some e \<longrightarrow>
           (\<exists>name img. (name, img) \<in> set composites_im_dict \<and> n = re_sub_2sp name
              \<and> e = File img))"
proof -
  let ?d = "join wd ''4.Enrichment_images''"
  let ?items = "map (\<lambda>(name, img). (re_sub_2sp name, img)) composites_im_dict"
  have d: "stage_dir ?d" by (rule join_stage_dir) simp_all
  from assms(1) obtain fs1 where c: "clear_NewImageDir fs ?d = Inr fs1"
    and s: "save_each fs1 ?d ?items = Inr fs'"
    by (auto simp: Enrichment_save_images_def Let_def split: sum.splits)
  have p: "\<forall>n\<in>fst ` set ?items. CHR ''/'' \<notin> set n"
    using assms(3) set_re_sub_2sp by fastforce
  have k: "fst ` set ?items = re_sub_2sp ` fst ` set composites_im_dict" by force
  from save_stage_listing [OF c s d assms(2) p] k show ?thesis by fastforce
qed

lemma DefectDetection_save_images_listing:
  assumes "DefectDetection_save_images wd defect_images_dict fs = Inr fs'"
    and "plain_names fs (join wd ''5.DefectDetected_images'')"
  shows "\<exists>l. fs' (join wd ''5.DefectDetected_images'') = Some l
     \<and> fst ` set l = basename ` fst ` set defect_images_dict
     \<and> (\<forall>n e. map_of l n = Some e \<longrightarrow>
           (\<exists>path img. (path, img) \<in> set defect_images_dict \<and> n = basename path
              \<and> e = File img))"
proof -
  let ?d = "join wd ''5.DefectDetected_images''"
  let ?items = "map (\<lambda>(path, img). (basename path, img)) defect_images_dict"
  have d: "stage_dir ?d" by (rule join_stage_dir) simp_all
  from assms(1) obtain fs1 where c: "clear_NewImageDir fs ?d = Inr fs1"
    and s: "save_each fs1 ?d ?items = Inr fs'"
    by (auto simp: DefectDetection_save_images_def Let_def split: sum.splits)
  have p: "\<forall>n\<in>fst ` set ?items. CHR ''/'' \<notin> set n"
    using basename_no_slash by auto
  have k: "fst ` set ?items = basename ` fst ` set defect_images_dict" by force
  from save_stage_listing [OF c s d assms(2) p] k show ?thesis by fastforce
qed

section \<open>Properties of the matcher\<close>

text \<open>
  The group of a name as the specification words it: the paths whose file name, with the
  frequency token removed, is that name. The code selects by substring instead
  (\<open>corresponding_paths\<close>).
\<close>

definition key_group :: "string list \<Rightarrow> string \<Rightarrow> string list" where
  "key_group image_paths name = filter (\<lambda>s. re_sub_freq (basename s) = name) image_paths"

text \<open>
  Claim C1. On every well-formed set of file names whose groups have three frequencies
  each, the matcher yields groups of exactly three members, and two groups share no
  member. The code does not do this: the six files below follow the naming scheme of the
  class docstring with the identifiers \<open>A\<close> and \<open>AA\<close>, the two groups have three
  files each, and the prefix \<open>A\<close> of the first group occurs in all six paths. In both
  iteration orders of the two names the assertion fails, with six paths logged.
\<close>

theorem C1_matcher_rejects_nested_identifiers:
  "uip [''d/A 1Hz B.png'', ''d/A 2Hz B.png'', ''d/A 3Hz B.png'',
        ''d/AA 1Hz B.png'', ''d/AA 2Hz B.png'', ''d/AA 3Hz B.png'']
     = [''A  B.png'', ''A  B.png'', ''A  B.png'', ''AA  B.png'', ''AA  B.png'', ''AA  B.png'']
   \<and> key_group [''d/A 1Hz B.png'', ''d/A 2Hz B.png'', ''d/A 3Hz B.png'',
        ''d/AA 1Hz B.png'', ''d/AA 2Hz B.png'', ''d/AA 3Hz B.png''] ''A  B.png''
     = [''d/A 1Hz B.png'', ''d/A 2Hz B.png'', ''d/A 3Hz B.png'']
   \<and> key_group [''d/A 1Hz B.png'', ''d/A 2Hz B.png'', ''d/A 3Hz B.png'',
        ''d/AA 1Hz B.png'', ''d/AA 2Hz B.png'', ''d/AA 3Hz B.png''] ''AA  B.png''
     = [''d/AA 1Hz B.png'', ''d/AA 2Hz B.png'', ''d/AA 3Hz B.png'']
   \<and> matcher [''d/A 1Hz B.png'', ''d/A 2Hz B.png'', ''d/A 3Hz B.png'',
        ''d/AA 1Hz B.png'', ''d/AA 2Hz B.png'', ''d/AA 3Hz B.png'']
        [''A  B.png'', ''AA  B.png'']
     = Inl (AssertionError [''d/A 1Hz B.png'', ''d/A 2Hz B.png'', ''d/A 3Hz B.png'',
        ''d/AA 1Hz B.png'', ''d/AA 2Hz B.png'', ''d/AA 3Hz B.png''])
   \<and> matcher [''d/A 1Hz B.png'', ''d/A 2Hz B.png'', ''d/A 3Hz B.png'',
        ''d/AA 1Hz B.png'', ''d/AA 2Hz B.png'', ''d/AA 3Hz B.png'']
        [''AA  B.png'', ''A  B.png'']
     = Inl (AssertionError [''d/A 1Hz B.png'', ''d/A 2Hz B.png'', ''d/A 3Hz B.png'',
        ''d/AA 1Hz B.png'', ''d/AA 2Hz B.png'', ''d/AA 3Hz B.png''])"
  by (simp add: uip_def key_group_def basename_def match_freq_def is_digit_def
      assert_three_def corresponding_paths_def re_split_def is_space_def)

section \<open>Claim C2: a group that does not have three members\<close>

lemma matcher_first_failure:
  "\<forall>m\<in>set pre. \<exists>qs. assert_three image_paths m = Inr qs \<Longrightarrow>
   assert_three image_paths n = Inl e \<Longrightarrow>
   matcher image_paths (pre @ n # post) = Inl e"
  by (induction pre) auto

lemma Asses_loop_first_failure:
  "\<forall>m\<in>set pre. \<exists>qs. assert_three image_paths m = Inr qs \<Longrightarrow>
   assert_three image_paths n = Inl e \<Longrightarrow>
   Asses_loop get_score thr image_paths (pre @ n # post) composite_ls = Inl e"
  by (induction pre arbitrary: composite_ls) auto

lemma load_groups_first_failure:
  "\<forall>m\<in>set pre. \<exists>qs. assert_three image_paths m = Inr qs \<Longrightarrow>
   assert_three image_paths n = Inl e \<Longrightarrow>
   load_groups Image_open image_paths (pre @ n # post) images_dict = Inl e"
  by (induction pre arbitrary: images_dict) auto

lemma corresponding_paths_separator:
  "2 \<le> length (re_split n) \<Longrightarrow> \<exists>ps. corresponding_paths image_paths n = Inr ps"
  by (cases "re_split n"; cases "tl (re_split n)")
     (auto simp: corresponding_paths_def Let_def)

text \<open>
  Claim C2. Whenever some group of the input has a number of selected members other than
  three, the grouping step raises the data-integrity error with the paths of that group.
  As stated this fails: a name without the separator can be visited first, and then the
  step ends in \<open>IndexError\<close>. Below, the file \<open>x.png\<close> carries no frequency token; the
  group \<open>A  B.png\<close> has one member; visiting \<open>x.png\<close> first raises \<open>IndexError\<close> in
  \<open>Asses\<close> and in the loading loop.
\<close>

theorem C2_counterexample:
  "set_order [''x.png'', ''A  B.png''] (uip [''d/x.png'', ''d/A 1Hz B.png''])
   \<and> corresponding_paths [''d/x.png'', ''d/A 1Hz B.png''] ''A  B.png'' = Inr [''d/A 1Hz B.png'']
   \<and> Asses (score_table [] 10) 70 [''d/x.png'', ''d/A 1Hz B.png''] [''x.png'', ''A  B.png'']
       = Inl IndexError
   \<and> load_groups length [''d/x.png'', ''d/A 1Hz B.png''] [''x.png'', ''A  B.png''] []
       = Inl IndexError"
  by (simp add: set_order_def uip_def basename_def match_freq_def is_digit_def Asses_def
      assert_three_def corresponding_paths_def re_split_def is_space_def)

text \<open>
  Claim C2, amended. If every name that is visited contains the separator (as the names of
  files that follow the naming scheme do) and some visited name selects a number of paths
  other than three, then the step raises \<open>AssertionError\<close>; the logged paths are those
  selected by the first such name in iteration order, all names before it selected three
  paths and are not reported, and no group is returned. This holds for the matcher, for
  \<open>Asses\<close> and for the loading loop of preprocessing and enrichment.
\<close>

theorem C2_first_bad_group_reported:
  assumes sep: "\<forall>n\<in>set names. 2 \<le> length (re_split n)"
    and bad: "\<exists>n\<in>set names. \<exists>ps. corresponding_paths image_paths n = Inr ps \<and> length ps \<noteq> 3"
  shows "\<exists>pre n post ps. names = pre @ n # post
      \<and> (\<forall>m\<in>set pre. \<exists>qs. corresponding_paths image_paths m = Inr qs \<and> length qs = 3)
      \<and> corresponding_paths image_paths n = Inr ps \<and> length ps \<noteq> 3
      \<and> matcher image_paths names = Inl (AssertionError ps)
      \<and> Asses get_score thr image_paths names = Inl (AssertionError ps)
      \<and> load_groups Image_open image_paths names images_dict = Inl (AssertionError ps)"
proof -
  let ?bad = "\<lambda>n. \<exists>ps. corresponding_paths image_paths n = Inr ps \<and> length ps \<noteq> 3"
  from bad have "\<exists>n\<in>set names. ?bad n" by simp
  then obtain pre n post where split: "names = pre @ n # post" and n: "?bad n"
    and pre: "\<forall>m\<in>set pre. \<not> ?bad m"
    using split_list_first_prop [of names ?bad] by blast
  from n obtain ps where ps: "corresponding_paths image_paths n = Inr ps" "length ps \<noteq> 3"
    by blast
  have three: "\<exists>qs. corresponding_paths image_paths m = Inr qs \<and> length qs = 3"
    if "m \<in> set pre" for m
  proof -
    from that split sep have "2 \<le> length (re_split m)" by simp
    then obtain qs where "corresponding_paths image_paths m = Inr qs"
      using corresponding_paths_separator by blast
    with pre that show ?thesis by auto
  qed
  have ok: "\<forall>m\<in>set pre. \<exists>qs. assert_three image_paths m = Inr qs"
  proof
    fix m assume "m \<in> set pre"
    from three [OF this] obtain qs where "corresponding_paths image_paths m = Inr qs" "length qs = 3"
      by blast
    then show "\<exists>qs. assert_three image_paths m = Inr qs"
      by (simp add: assert_three_def)
  qed
  have fail: "assert_three image_paths n = Inl (AssertionError ps)"
    using ps by (simp add: assert_three_def)
  show ?thesis
    using split three ps
      matcher_first_failure [OF ok fail, of post]
      Asses_loop_first_failure [OF ok fail, of get_score thr post "[]"]
      load_groups_first_failure [OF ok fail, of Image_open post images_dict]
    unfolding Asses_def by blast
qed

theorem C2_first_bad_group_reported_witness:
  "matcher [''d/A 1Hz B.png'', ''d/A 2Hz B.png'', ''d/A 3Hz B.png'', ''d/C 1Hz D.png'', ''d/C 2Hz D.png'']
     [''A  B.png'', ''C  D.png'']
   = Inl (AssertionError [''d/C 1Hz D.png'', ''d/C 2Hz D.png''])"
proof -
  let ?paths = "[''d/A 1Hz B.png'', ''d/A 2Hz B.png'', ''d/A 3Hz B.png'', ''d/C 1Hz D.png'', ''d/C 2Hz D.png'']"
  have a: "corresponding_paths ?paths ''A  B.png'' = Inr [''d/A 1Hz B.png'', ''d/A 2Hz B.png'', ''d/A 3Hz B.png'']"
    by (simp add: corresponding_paths_def re_split_def is_space_def)
  have c: "corresponding_paths ?paths ''C  D.png'' = Inr [''d/C 1Hz D.png'', ''d/C 2Hz D.png'']"
    by (simp add: corresponding_paths_def re_split_def is_space_def)
  have sep: "\<forall>n\<in>set [''A  B.png'', ''C  D.png'']. 2 \<le> length (re_split n)"
    by (simp add: re_split_def is_space_def)
  have bad: "\<exists>n\<in>set [''A  B.png'', ''C  D.png'']. \<exists>ps. corresponding_paths ?paths n = Inr ps \<and> length ps \<noteq> 3"
    using c by simp
  from C2_first_bad_group_reported [OF sep bad, of "\<lambda>_. 0" 70 "\<lambda>_. ()" "[]"]
  obtain pre n post ps where
    "[''A  B.png'', ''C  D.png''] = pre @ n # post"
    "corresponding_paths ?paths n = Inr ps" "length ps \<noteq> 3"
    "matcher ?paths [''A  B.png'', ''C  D.png''] = Inl (AssertionError ps)"
    by blast
  then show ?thesis using a c
    by (auto simp: Cons_eq_append_conv)
qed

section \<open>Claim C3: the quality gate\<close>

lemma matcher_Inr:
  "matcher image_paths names = Inr gs \<Longrightarrow>
   map fst gs = names \<and> (\<forall>(n, qs)\<in>set gs. corresponding_paths image_paths n = Inr qs \<and> length qs = 3)"
  by (induction names arbitrary: gs)
     (auto simp: assert_three_def split: sum.splits if_splits)

lemma Asses_loop_matcher:
  "Asses_loop get_score thr image_paths names composite_ls =
     (case matcher image_paths names of
        Inl e \<Rightarrow> Inl e
      | Inr gs \<Rightarrow> Inr (composite_ls @ map (\<lambda>(n, qs). make_composite_dict get_score thr n qs) gs))"
  by (induction names arbitrary: composite_ls) (auto split: sum.splits)

lemma Asses_record:
  assumes "Asses get_score thr image_paths names = Inr composite_ls" "cd \<in> set composite_ls"
  shows "\<exists>n qs. n \<in> set names \<and> corresponding_paths image_paths n = Inr qs \<and> length qs = 3
           \<and> cd = make_composite_dict get_score thr n qs"
proof -
  from assms(1) obtain gs where gs: "matcher image_paths names = Inr gs"
    and ls: "composite_ls = map (\<lambda>(n, qs). make_composite_dict get_score thr n qs) gs"
    by (auto simp: Asses_def Asses_loop_matcher split: sum.splits)
  from assms(2) ls obtain n qs where nq: "(n, qs) \<in> set gs" "cd = make_composite_dict get_score thr n qs"
    by auto
  from matcher_Inr [OF gs] nq(1) have "n \<in> set names" "corresponding_paths image_paths n = Inr qs \<and> length qs = 3"
    by force+
  with nq(2) show ?thesis by blast
qed

lemma Asses_record_gate:
  assumes A: "Asses get_score thr image_paths names = Inr composite_ls"
    and cd: "cd \<in> set composite_ls"
  shows "length (cd_image_paths cd) = 3 \<and> length (scores cd) = 3 \<and> length (passed cd) = 3
    \<and> (\<forall>i<3. scores cd ! i = get_score (cd_image_paths cd ! i)
             \<and> (passed cd ! i \<longleftrightarrow> scores cd ! i < thr))
    \<and> (Composite_pass cd \<longleftrightarrow> passed cd ! 0 \<and> passed cd ! 1 \<and> passed cd ! 2)"
proof -
  from Asses_record [OF A cd] obtain n qs where
    qs: "length qs = 3" and mk: "cd = make_composite_dict get_score thr n qs" by blast
  have len: "length (cd_image_paths cd) = 3 \<and> length (scores cd) = 3 \<and> length (passed cd) = 3"
    using qs mk by (simp add: make_composite_dict_def Let_def)
  have each: "\<forall>i<3. scores cd ! i = get_score (cd_image_paths cd ! i)
             \<and> (passed cd ! i \<longleftrightarrow> scores cd ! i < thr)"
    using qs mk by (simp add: make_composite_dict_def Let_def)
  have all: "Composite_pass cd \<longleftrightarrow> passed cd ! 0 \<and> passed cd ! 1 \<and> passed cd ! 2"
  proof -
    from len obtain a b c where "passed cd = [a, b, c]"
      by (metis (no_types) length_0_conv length_Suc_conv numeral_3_eq_3)
    moreover have "Composite_pass cd = list_all (\<lambda>b. b = True) (passed cd)"
      using mk by (simp add: make_composite_dict_def Let_def)
    ultimately show ?thesis by simp
  qed
  show ?thesis using len each all by simp
qed

section \<open>Claim C4: the merge of a group\<close>

lemma Image_merge_RGB_three:
  assumes "map_of images_dict p0 = Some i0" "map_of images_dict p1 = Some i1"
    "map_of images_dict p2 = Some i2"
    "single_channel i0 sz" "single_channel i1 sz" "single_channel i2 sz"
    "im_bands i0 = [b0]" "im_bands i1 = [b1]" "im_bands i2 = [b2]"
  shows "Image_merge_RGB (map (map_of images_dict) [p0, p1, p2]) =
     Inr \<lparr>im_mode = Mode_RGB, im_size = sz, im_bands = [b0, b1, b2]\<rparr>"
  using assms by (simp add: Image_merge_RGB_def single_channel_def)

lemma single_channel_band: "single_channel i sz \<Longrightarrow> \<exists>b. im_bands i = [b]"
  by (cases "im_bands i") (auto simp: single_channel_def)

lemma enrich_loop_other:
  "enrich_loop image_paths images_dict names c0 = Inr c \<Longrightarrow> n \<notin> set names \<Longrightarrow>
   map_of c n = map_of c0 n"
  by (induction names arbitrary: c0) (auto split: sum.splits simp: update_conv')

lemma enrich_loop_keys:
  "enrich_loop image_paths images_dict names c0 = Inr c \<Longrightarrow>
   fst ` set c = fst ` set c0 \<union> set names"
proof (induction names arbitrary: c0)
  case Nil
  then show ?case by simp
next
  case (Cons name names)
  from Cons.prems obtain m where
    "enrich_loop image_paths images_dict names (AList.update name m c0) = Inr c"
    by (auto split: sum.splits)
  from Cons.IH [OF this] dom_update [of name m c0] show ?case by auto
qed

lemma enrich_loop_merges:
  assumes "\<forall>name\<in>set names. \<exists>ps sz.
      corresponding_paths image_paths name = Inr ps \<and> length ps = 3 \<and>
      (\<forall>p\<in>set ps. \<exists>i. map_of images_dict p = Some i \<and> single_channel i sz)"
  shows "\<exists>comps. enrich_loop image_paths images_dict names start = Inr comps
     \<and> fst ` set comps = fst ` set start \<union> set names
     \<and> (\<forall>name\<in>set names. \<exists>ps m.
           corresponding_paths image_paths name = Inr ps \<and> map_of comps name = Some m
           \<and> merged_ok images_dict ps m)"
  using assms
proof (induction names arbitrary: start)
  case Nil
  then show ?case by simp
next
  case (Cons name names)
  from Cons.prems obtain ps sz where ps: "corresponding_paths image_paths name = Inr ps"
    "length ps = 3" "\<forall>p\<in>set ps. \<exists>i. map_of images_dict p = Some i \<and> single_channel i sz"
    by auto
  from ps(2) obtain p0 p1 p2 where l: "ps = [p0, p1, p2]"
    by (metis (no_types) length_0_conv length_Suc_conv numeral_3_eq_3)
  from ps(3) l obtain i0 i1 i2 where i:
    "map_of images_dict p0 = Some i0" "single_channel i0 sz"
    "map_of images_dict p1 = Some i1" "single_channel i1 sz"
    "map_of images_dict p2 = Some i2" "single_channel i2 sz"
    by auto
  from single_channel_band [OF i(2)] single_channel_band [OF i(4)] single_channel_band [OF i(6)]
  obtain b0 b1 b2 where b: "im_bands i0 = [b0]" "im_bands i1 = [b1]" "im_bands i2 = [b2]"
    by blast
  let ?m = "\<lparr>im_mode = Mode_RGB, im_size = sz, im_bands = [b0, b1, b2]\<rparr>"
  have mg: "Image_merge_RGB (map (map_of images_dict) ps) = Inr ?m"
    unfolding l by (rule Image_merge_RGB_three [OF i(1,3,5,2,4,6) b])
  have ok: "merged_ok images_dict ps ?m"
    unfolding merged_ok_def l
    using i b by (auto simp: less_Suc_eq numeral_3_eq_3 single_channel_def)
  from Cons.prems have "\<forall>name\<in>set names. \<exists>ps sz.
      corresponding_paths image_paths name = Inr ps \<and> length ps = 3 \<and>
      (\<forall>p\<in>set ps. \<exists>i. map_of images_dict p = Some i \<and> single_channel i sz)" by simp
  from Cons.IH [OF this, of "AList.update name ?m start"]
  obtain comps where c:
    "enrich_loop image_paths images_dict names (AList.update name ?m start) = Inr comps"
    "fst ` set comps = fst ` set (AList.update name ?m start) \<union> set names"
    "\<forall>n\<in>set names. \<exists>ps m. corresponding_paths image_paths n = Inr ps \<and> map_of comps n = Some m
           \<and> merged_ok images_dict ps m"
    by blast
  have run: "enrich_loop image_paths images_dict (name # names) start = Inr comps"
    using ps(1) mg c(1) by simp
  have keys: "fst ` set comps = fst ` set start \<union> set (name # names)"
    using c(2) dom_update [of name ?m start] by auto
  have here: "\<exists>ps m. corresponding_paths image_paths name = Inr ps \<and> map_of comps name = Some m
           \<and> merged_ok images_dict ps m"
  proof (cases "name \<in> set names")
    case True
    with c(3) show ?thesis by blast
  next
    case False
    from enrich_loop_other [OF c(1) False] have "map_of comps name = Some ?m"
      by (simp add: update_conv')
    with ps(1) ok show ?thesis by blast
  qed
  show ?case using run keys here c(3) by auto
qed

text \<open>
  Claim C4. For every group of three single-channel images of one size, the merge yields
  one three-channel image of that size whose channel \<open>k\<close> is the data of image \<open>k\<close>, in
  the order in which the three paths were selected. Here: if every name that \<open>enrich\<close>
  visits selects three paths of \<open>image_paths\<close> whose images in \<open>images_dict\<close> are
  single-channel images of one size, then \<open>enrich\<close> succeeds, it stores an image under
  every visited name and under no new name besides, and the image of a name has the mode
  \<open>RGB\<close>, three bands, the size of the images of its paths, and as band \<open>k\<close> the band of
  the image of the \<open>k\<close>-th selected path. The selection keeps the order of \<open>image_paths\<close>.
\<close>

theorem C4_merge:
  assumes "\<forall>name\<in>set (order (uip (map fst images_dict))). \<exists>ps sz.
      corresponding_paths image_paths name = Inr ps \<and> length ps = 3 \<and>
      (\<forall>p\<in>set ps. \<exists>i. map_of images_dict p = Some i \<and> single_channel i sz)"
  shows "\<exists>comps. enrich order image_paths images_dict start = Inr comps
     \<and> fst ` set comps = fst ` set start \<union> set (order (uip (map fst images_dict)))
     \<and> (\<forall>name\<in>set (order (uip (map fst images_dict))). \<exists>ps m.
           corresponding_paths image_paths name = Inr ps \<and> map_of comps name = Some m
           \<and> merged_ok images_dict ps m)"
  unfolding enrich_def by (rule enrich_loop_merges [OF assms])

theorem C4_merge_witness:
  "(\<exists>comps. enrich remdups
       [''d/SampleA 1Hz SampleB.png'', ''d/SampleA 0_5Hz SampleB.png'', ''d/SampleA 2Hz SampleB.png'']
       [(''d/SampleA 1Hz SampleB.png'', \<lparr>im_mode = Mode_L, im_size = (2, 1), im_bands = [[10, 10]]\<rparr>),
        (''d/SampleA 0_5Hz SampleB.png'', \<lparr>im_mode = Mode_L, im_size = (2, 1), im_bands = [[20, 20]]\<rparr>),
        (''d/SampleA 2Hz SampleB.png'', \<lparr>im_mode = Mode_L, im_size = (2, 1), im_bands = [[30, 30]]\<rparr>)]
       [] = Inr comps
     \<and> map_of comps ''SampleA  SampleB.png''
         = Some \<lparr>im_mode = Mode_RGB, im_size = (2, 1), im_bands = [[10, 10], [20, 20], [30, 30]]\<rparr>)"
proof -
  let ?paths = "[''d/SampleA 1Hz SampleB.png'', ''d/SampleA 0_5Hz SampleB.png'',
      ''d/SampleA 2Hz SampleB.png'']"
  let ?dict = "[(''d/SampleA 1Hz SampleB.png'', \<lparr>im_mode = Mode_L, im_size = (2, 1), im_bands = [[10, 10]]\<rparr>),
        (''d/SampleA 0_5Hz SampleB.png'', \<lparr>im_mode = Mode_L, im_size = (2, 1), im_bands = [[20, 20]]\<rparr>),
        (''d/SampleA 2Hz SampleB.png'', \<lparr>im_mode = Mode_L, im_size = (2, 1), im_bands = [[30, 30]]\<rparr>)]"
  have names: "remdups (uip (map fst ?dict)) = [''SampleA  SampleB.png'']"
    by (simp add: uip_def basename_def match_freq_def is_digit_def)
  have cp: "corresponding_paths ?paths ''SampleA  SampleB.png'' = Inr ?paths"
    by (simp add: corresponding_paths_def re_split_def is_space_def)
  have h: "\<forall>name\<in>set (remdups (uip (map fst ?dict))). \<exists>ps sz.
      corresponding_paths ?paths name = Inr ps \<and> length ps = 3 \<and>
      (\<forall>p\<in>set ps. \<exists>i. map_of ?dict p = Some i \<and> single_channel i sz)"
    unfolding names using cp by (auto simp: single_channel_def)
  from C4_merge [where order = remdups and images_dict = ?dict and image_paths = ?paths
      and start = "[]", OF h]
  obtain comps m where
    c: "enrich remdups ?paths ?dict [] = Inr comps"
    "map_of comps ''SampleA  SampleB.png'' = Some m" "merged_ok ?dict ?paths m"
    unfolding names using cp by auto
  from c(3) have mode: "im_mode m = Mode_RGB" and len: "length (im_bands m) = 3"
    and k: "\<And>k. k < 3 \<Longrightarrow> \<exists>i. map_of ?dict (?paths ! k) = Some i \<and> im_size m = im_size i
                 \<and> im_bands i = [im_bands m ! k]"
    by (simp_all add: merged_ok_def)
  from k [of 0] have k0: "im_size m = (2, 1)" "im_bands m ! 0 = [10, 10]" by auto
  from k [of 1] have k1: "im_bands m ! 1 = [20, 20]" by auto
  from k [of 2] have k2: "im_bands m ! 2 = [30, 30]" by auto
  from len obtain x y z where xyz: "im_bands m = [x, y, z]"
    by (auto simp: numeral_3_eq_3 length_Suc_conv)
  with k0 k1 k2 have "im_bands m = [[10, 10], [20, 20], [30, 30]]"
    by (simp add: numeral_2_eq_2)
  with mode k0(1)
  have "m = \<lparr>im_mode = Mode_RGB, im_size = (2, 1), im_bands = [[10, 10], [20, 20], [30, 30]]\<rparr>"
    by (cases m) simp
  with c show ?thesis by blast
qed

section \<open>Claim C5: a second run replaces the first\<close>

lemma listdir_basename_plain: "listdir fs d = basename ` S \<Longrightarrow> plain_names fs d"
proof -
  assume a: "listdir fs d = basename ` S"
  show ?thesis
    unfolding plain_names_def
  proof (intro allI impI ballI)
    fix l n assume "fs d = Some l" "n \<in> fst ` set l"
    with a have "n \<in> basename ` S" by (simp add: listdir_def)
    then show "CHR ''/'' \<notin> set n" using basename_no_slash by auto
  qed
qed

lemma listing_listdir: "fs d = Some l \<Longrightarrow> listdir fs d = fst ` set l"
  by (simp add: listdir_def)

text \<open>
  Claim C5. For every stage, when \<open>save_images\<close> runs twice on the same stage directory
  with different inputs, the directory afterwards holds exactly the files of the second
  run. For each of the five stages: if the names of the directory are plain at the start
  and both runs succeed, then after the second run the names in the directory are the
  names that the second run wrote (the file names of its sources, or the collapsed names
  of its composites), and for the three stages that save images every file holds an image
  of the second run.
\<close>

theorem C5_replace:
  "(plain_names a_init (join wd ''1.Acquired_images'')
      \<and> Acquisition_save_images wd paths_one a_init = Inr a_mid
      \<and> Acquisition_save_images wd paths_two a_mid = Inr a_end
    \<longrightarrow> listdir a_end (join wd ''1.Acquired_images'') = basename ` set paths_two)
   \<and> (plain_names q_init (join wd ''2.IQA_images'')
      \<and> IQA_save_images wd ls_one q_init = Inr q_mid
      \<and> IQA_save_images wd ls_two q_mid = Inr q_end
    \<longrightarrow> listdir q_end (join wd ''2.IQA_images'') = basename ` set (passed_paths ls_two))
   \<and> (plain_names p_init (join wd ''3.Preprocessed_images'')
      \<and> Preprocess_save_images wd dict_one p_init = Inr p_mid
      \<and> Preprocess_save_images wd dict_two p_mid = Inr p_end
    \<longrightarrow> (\<exists>l. p_end (join wd ''3.Preprocessed_images'') = Some l
          \<and> fst ` set l = basename ` fst ` set dict_two
          \<and> (\<forall>n e. map_of l n = Some e \<longrightarrow>
                (\<exists>path img. (path, img) \<in> set dict_two \<and> n = basename path
                   \<and> e = File (saved_samples img)))))
   \<and> (plain_names e_init (join wd ''4.Enrichment_images'')
      \<and> (\<forall>n\<in>fst ` set comps_one \<union> fst ` set comps_two. CHR ''/'' \<notin> set n)
      \<and> Enrichment_save_images wd comps_one e_init = Inr e_mid
      \<and> Enrichment_save_images wd comps_two e_mid = Inr e_end
    \<longrightarrow> (\<exists>l. e_end (join wd ''4.Enrichment_images'') = Some l
          \<and> fst ` set l = re_sub_2sp ` fst ` set comps_two
          \<and> (\<forall>n e. map_of l n = Some e \<longrightarrow>
                (\<exists>name img. (name, img) \<in> set comps_two \<and> n = re_sub_2sp name \<and> e = File img))))
   \<and> (plain_names d_init (join wd ''5.DefectDetected_images'')
      \<and> DefectDetection_save_images wd det_one d_init = Inr d_mid
      \<and> DefectDetection_save_images wd det_two d_mid = Inr d_end
    \<longrightarrow> (\<exists>l. d_end (join wd ''5.DefectDetected_images'') = Some l
          \<and> fst ` set l = basename ` fst ` set det_two
          \<and> (\<forall>n e. map_of l n = Some e \<longrightarrow>
                (\<exists>path img. (path, img) \<in> set det_two \<and> n = basename path \<and> e = File img))))"
proof (intro conjI impI)
  assume h: "plain_names a_init (join wd ''1.Acquired_images'')
      \<and> Acquisition_save_images wd paths_one a_init = Inr a_mid
      \<and> Acquisition_save_images wd paths_two a_mid = Inr a_end"
  then have "listdir a_mid (join wd ''1.Acquired_images'') = basename ` set paths_one"
    using Acquisition_save_images_listing by blast
  then have "plain_names a_mid (join wd ''1.Acquired_images'')" by (rule listdir_basename_plain)
  with h show "listdir a_end (join wd ''1.Acquired_images'') = basename ` set paths_two"
    using Acquisition_save_images_listing by blast
next
  assume h: "plain_names q_init (join wd ''2.IQA_images'')
      \<and> IQA_save_images wd ls_one q_init = Inr q_mid
      \<and> IQA_save_images wd ls_two q_mid = Inr q_end"
  then have "listdir q_mid (join wd ''2.IQA_images'') = basename ` set (passed_paths ls_one)"
    using IQA_save_images_listing by blast
  then have "plain_names q_mid (join wd ''2.IQA_images'')" by (rule listdir_basename_plain)
  with h show "listdir q_end (join wd ''2.IQA_images'') = basename ` set (passed_paths ls_two)"
    using IQA_save_images_listing by blast
next
  assume h: "plain_names p_init (join wd ''3.Preprocessed_images'')
      \<and> Preprocess_save_images wd dict_one p_init = Inr p_mid
      \<and> Preprocess_save_images wd dict_two p_mid = Inr p_end"
  then have s1: "Preprocess_save_images wd dict_one p_init = Inr p_mid"
    and s2: "Preprocess_save_images wd dict_two p_mid = Inr p_end"
    and pl: "plain_names p_init (join wd ''3.Preprocessed_images'')" by simp_all
  from Preprocess_save_images_listing [OF s1 pl]
  obtain l where "p_mid (join wd ''3.Preprocessed_images'') = Some l"
    "fst ` set l = basename ` fst ` set dict_one" by blast
  then have "listdir p_mid (join wd ''3.Preprocessed_images'') = basename ` fst ` set dict_one"
    by (simp add: listdir_def)
  then have "plain_names p_mid (join wd ''3.Preprocessed_images'')" by (rule listdir_basename_plain)
  from Preprocess_save_images_listing [OF s2 this]
  show "\<exists>l. p_end (join wd ''3.Preprocessed_images'') = Some l
          \<and> fst ` set l = basename ` fst ` set dict_two
          \<and> (\<forall>n e. map_of l n = Some e \<longrightarrow>
                (\<exists>path img. (path, img) \<in> set dict_two \<and> n = basename path
                   \<and> e = File (saved_samples img)))" .
next
  assume h: "plain_names e_init (join wd ''4.Enrichment_images'')
      \<and> (\<forall>n\<in>fst ` set comps_one \<union> fst ` set comps_two. CHR ''/'' \<notin> set n)
      \<and> Enrichment_save_images wd comps_one e_init = Inr e_mid
      \<and> Enrichment_save_images wd comps_two e_mid = Inr e_end"
  then have s1: "Enrichment_save_images wd comps_one e_init = Inr e_mid"
    and s2: "Enrichment_save_images wd comps_two e_mid = Inr e_end"
    and pl: "plain_names e_init (join wd ''4.Enrichment_images'')"
    and k1: "\<forall>n\<in>fst ` set comps_one. CHR ''/'' \<notin> set n"
    and k2: "\<forall>n\<in>fst ` set comps_two. CHR ''/'' \<notin> set n" by simp_all
  from Enrichment_save_images_listing [OF s1 pl k1]
  obtain l where l: "e_mid (join wd ''4.Enrichment_images'') = Some l"
    "fst ` set l = re_sub_2sp ` fst ` set comps_one" by blast
  have "\<forall>n\<in>fst ` set l. CHR ''/'' \<notin> set n"
    unfolding l(2) using k1 set_re_sub_2sp by fastforce
  with l(1) have "plain_names e_mid (join wd ''4.Enrichment_images'')"
    by (simp add: plain_names_def)
  from Enrichment_save_images_listing [OF s2 this k2]
  show "\<exists>l. e_end (join wd ''4.Enrichment_images'') = Some l
          \<and> fst ` set l = re_sub_2sp ` fst ` set comps_two
          \<and> (\<forall>n e. map_of l n = Some e \<longrightarrow>
                (\<exists>name img. (name, img) \<in> set comps_two \<and> n = re_sub_2sp name \<and> e = File img))" .
next
  assume h: "plain_names d_init (join wd ''5.DefectDetected_images'')
      \<and> DefectDetection_save_images wd det_one d_init = Inr d_mid
      \<and> DefectDetection_save_images wd det_two d_mid = Inr d_end"
  then have s1: "DefectDetection_save_images wd det_one d_init = Inr d_mid"
    and s2: "DefectDetection_save_images wd det_two d_mid = Inr d_end"
    and pl: "plain_names d_init (join wd ''5.DefectDetected_images'')" by simp_all
  from DefectDetection_save_images_listing [OF s1 pl]
  obtain l where "d_mid (join wd ''5.DefectDetected_images'') = Some l"
    "fst ` set l = basename ` fst ` set det_one" by blast
  then have "listdir d_mid (join wd ''5.DefectDetected_images'') = basename ` fst ` set det_one"
    by (simp add: listdir_def)
  then have "plain_names d_mid (join wd ''5.DefectDetected_images'')" by (rule listdir_basename_plain)
  from DefectDetection_save_images_listing [OF s2 this]
  show "\<exists>l. d_end (join wd ''5.DefectDetected_images'') = Some l
          \<and> fst ` set l = basename ` fst ` set det_two
          \<and> (\<forall>n e. map_of l n = Some e \<longrightarrow>
                (\<exists>path img. (path, img) \<in> set det_two \<and> n = basename path \<and> e = File img))" .
qed

theorem C5_replace_witness:
  "Acquisition_save_images ''wd'' ([''src/a.png'']) ([''src'' \<mapsto> [(''a.png'', File (1::nat)), (''b.png'', File 2)]]) = Inr ([''src'' \<mapsto> [(''a.png'', File (1::nat)), (''b.png'', File 2)], ''wd/1.Acquired_images'' \<mapsto> [(''a.png'', File 1)]])
   \<and> Acquisition_save_images ''wd'' ([''src/b.png'']) ([''src'' \<mapsto> [(''a.png'', File (1::nat)), (''b.png'', File 2)], ''wd/1.Acquired_images'' \<mapsto> [(''a.png'', File 1)]]) = Inr ([''src'' \<mapsto> [(''a.png'', File (1::nat)), (''b.png'', File 2)], ''wd/1.Acquired_images'' \<mapsto> [(''b.png'', File 2)]])
   \<and> listdir ([''src'' \<mapsto> [(''a.png'', File (1::nat)), (''b.png'', File 2)], ''wd/1.Acquired_images'' \<mapsto> [(''b.png'', File 2)]]) (join ''wd'' ''1.Acquired_images'') = {''b.png''}
   \<and> IQA_save_images ''wd'' ([\<lparr>composite_name = ''n'', cd_image_paths = [''src/a.png''], scores = [1], passed = [True], Composite_pass = True\<rparr>]) ([''src'' \<mapsto> [(''a.png'', File (1::nat)), (''b.png'', File 2)]]) = Inr ([''src'' \<mapsto> [(''a.png'', File (1::nat)), (''b.png'', File 2)], ''wd/2.IQA_images'' \<mapsto> [(''a.png'', File 1)]])
   \<and> IQA_save_images ''wd'' ([\<lparr>composite_name = ''n'', cd_image_paths = [''src/b.png''], scores = [1], passed = [True], Composite_pass = True\<rparr>]) ([''src'' \<mapsto> [(''a.png'', File (1::nat)), (''b.png'', File 2)], ''wd/2.IQA_images'' \<mapsto> [(''a.png'', File 1)]]) = Inr ([''src'' \<mapsto> [(''a.png'', File (1::nat)), (''b.png'', File 2)], ''wd/2.IQA_images'' \<mapsto> [(''b.png'', File 2)]])
   \<and> listdir ([''src'' \<mapsto> [(''a.png'', File (1::nat)), (''b.png'', File 2)], ''wd/2.IQA_images'' \<mapsto> [(''b.png'', File 2)]]) (join ''wd'' ''2.IQA_images'') = {''b.png''}
   \<and> Preprocess_save_images ''wd'' ([(''src/a.png'', PILImage [1])]) (Map.empty) = Inr ([''wd/3.Preprocessed_images'' \<mapsto> [(''a.png'', File [1::nat])]])
   \<and> Preprocess_save_images ''wd'' ([(''src/b.png'', ndarray_float64 [5 / 2])]) ([''wd/3.Preprocessed_images'' \<mapsto> [(''a.png'', File [1::nat])]]) = Inr ([''wd/3.Preprocessed_images'' \<mapsto> [(''b.png'', File [2::nat])]])
   \<and> listdir ([''wd/3.Preprocessed_images'' \<mapsto> [(''b.png'', File [2::nat])]]) (join ''wd'' ''3.Preprocessed_images'') = {''b.png''}
   \<and> Enrichment_save_images ''wd'' ([(''A  B.png'', \<lparr>im_mode = Mode_RGB, im_size = (1, 1), im_bands = [[1], [2], [3]]\<rparr>)]) (Map.empty) = Inr ([''wd/4.Enrichment_images'' \<mapsto> [(''A B.png'', File \<lparr>im_mode = Mode_RGB, im_size = (1, 1), im_bands = [[1], [2], [3]]\<rparr>)]])
   \<and> Enrichment_save_images ''wd'' ([(''C  D.png'', \<lparr>im_mode = Mode_RGB, im_size = (1, 1), im_bands = [[4], [5], [6]]\<rparr>)]) ([''wd/4.Enrichment_images'' \<mapsto> [(''A B.png'', File \<lparr>im_mode = Mode_RGB, im_size = (1, 1), im_bands = [[1], [2], [3]]\<rparr>)]]) = Inr ([''wd/4.Enrichment_images'' \<mapsto> [(''C D.png'', File \<lparr>im_mode = Mode_RGB, im_size = (1, 1), im_bands = [[4], [5], [6]]\<rparr>)]])
   \<and> listdir ([''wd/4.Enrichment_images'' \<mapsto> [(''C D.png'', File \<lparr>im_mode = Mode_RGB, im_size = (1, 1), im_bands = [[4], [5], [6]]\<rparr>)]]) (join ''wd'' ''4.Enrichment_images'') = {''C D.png''}
   \<and> DefectDetection_save_images ''wd'' ([(''x/a.png'', 1::nat)]) (Map.empty) = Inr ([''wd/5.DefectDetected_images'' \<mapsto> [(''a.png'', File (1::nat))]])
   \<and> DefectDetection_save_images ''wd'' ([(''x/b.png'', 2::nat)]) ([''wd/5.DefectDetected_images'' \<mapsto> [(''a.png'', File (1::nat))]]) = Inr ([''wd/5.DefectDetected_images'' \<mapsto> [(''b.png'', File (2::nat))]])
   \<and> listdir ([''wd/5.DefectDetected_images'' \<mapsto> [(''b.png'', File (2::nat))]]) (join ''wd'' ''5.DefectDetected_images'') = {''b.png''}"
proof -
  have a1: "Acquisition_save_images ''wd'' ([''src/a.png'']) ([''src'' \<mapsto> [(''a.png'', File (1::nat)), (''b.png'', File 2)]]) = Inr ([''src'' \<mapsto> [(''a.png'', File (1::nat)), (''b.png'', File 2)], ''wd/1.Acquired_images'' \<mapsto> [(''a.png'', File 1)]])"
    by (simp add: Acquisition_save_images_def fs_eval saved_samples_def cast_uint8_def)
  have a2: "Acquisition_save_images ''wd'' ([''src/b.png'']) ([''src'' \<mapsto> [(''a.png'', File (1::nat)), (''b.png'', File 2)], ''wd/1.Acquired_images'' \<mapsto> [(''a.png'', File 1)]]) = Inr ([''src'' \<mapsto> [(''a.png'', File (1::nat)), (''b.png'', File 2)], ''wd/1.Acquired_images'' \<mapsto> [(''b.png'', File 2)]])"
    by (simp add: Acquisition_save_images_def fs_eval saved_samples_def cast_uint8_def)
  have a0: "plain_names ([''src'' \<mapsto> [(''a.png'', File (1::nat)), (''b.png'', File 2)]]) (join ''wd'' ''1.Acquired_images'')"
    by (simp add: plain_names_def join_def)
  have q1: "IQA_save_images ''wd'' ([\<lparr>composite_name = ''n'', cd_image_paths = [''src/a.png''], scores = [1], passed = [True], Composite_pass = True\<rparr>]) ([''src'' \<mapsto> [(''a.png'', File (1::nat)), (''b.png'', File 2)]]) = Inr ([''src'' \<mapsto> [(''a.png'', File (1::nat)), (''b.png'', File 2)], ''wd/2.IQA_images'' \<mapsto> [(''a.png'', File 1)]])"
    by (simp add: IQA_save_images_def fs_eval saved_samples_def cast_uint8_def)
  have q2: "IQA_save_images ''wd'' ([\<lparr>composite_name = ''n'', cd_image_paths = [''src/b.png''], scores = [1], passed = [True], Composite_pass = True\<rparr>]) ([''src'' \<mapsto> [(''a.png'', File (1::nat)), (''b.png'', File 2)], ''wd/2.IQA_images'' \<mapsto> [(''a.png'', File 1)]]) = Inr ([''src'' \<mapsto> [(''a.png'', File (1::nat)), (''b.png'', File 2)], ''wd/2.IQA_images'' \<mapsto> [(''b.png'', File 2)]])"
    by (simp add: IQA_save_images_def fs_eval saved_samples_def cast_uint8_def)
  have q0: "plain_names ([''src'' \<mapsto> [(''a.png'', File (1::nat)), (''b.png'', File 2)]]) (join ''wd'' ''2.IQA_images'')"
    by (simp add: plain_names_def join_def)
  have p1: "Preprocess_save_images ''wd'' ([(''src/a.png'', PILImage [1])]) (Map.empty) = Inr ([''wd/3.Preprocessed_images'' \<mapsto> [(''a.png'', File [1::nat])]])"
    by (simp add: Preprocess_save_images_def fs_eval saved_samples_def cast_uint8_def)
  have p2: "Preprocess_save_images ''wd'' ([(''src/b.png'', ndarray_float64 [5 / 2])]) ([''wd/3.Preprocessed_images'' \<mapsto> [(''a.png'', File [1::nat])]]) = Inr ([''wd/3.Preprocessed_images'' \<mapsto> [(''b.png'', File [2::nat])]])"
    by (simp add: Preprocess_save_images_def fs_eval saved_samples_def cast_uint8_def)
  have p0: "plain_names (Map.empty) (join ''wd'' ''3.Preprocessed_images'')"
    by (simp add: plain_names_def join_def)
  have e1: "Enrichment_save_images ''wd'' ([(''A  B.png'', \<lparr>im_mode = Mode_RGB, im_size = (1, 1), im_bands = [[1], [2], [3]]\<rparr>)]) (Map.empty) = Inr ([''wd/4.Enrichment_images'' \<mapsto> [(''A B.png'', File \<lparr>im_mode = Mode_RGB, im_size = (1, 1), im_bands = [[1], [2], [3]]\<rparr>)]])"
    by (simp add: Enrichment_save_images_def fs_eval saved_samples_def cast_uint8_def)
  have e2: "Enrichment_save_images ''wd'' ([(''C  D.png'', \<lparr>im_mode = Mode_RGB, im_size = (1, 1), im_bands = [[4], [5], [6]]\<rparr>)]) ([''wd/4.Enrichment_images'' \<mapsto> [(''A B.png'', File \<lparr>im_mode = Mode_RGB, im_size = (1, 1), im_bands = [[1], [2], [3]]\<rparr>)]]) = Inr ([''wd/4.Enrichment_images'' \<mapsto> [(''C D.png'', File \<lparr>im_mode = Mode_RGB, im_size = (1, 1), im_bands = [[4], [5], [6]]\<rparr>)]])"
    by (simp add: Enrichment_save_images_def fs_eval saved_samples_def cast_uint8_def)
  have e0: "plain_names (Map.empty) (join ''wd'' ''4.Enrichment_images'')"
    by (simp add: plain_names_def join_def)
  have d1: "DefectDetection_save_images ''wd'' ([(''x/a.png'', 1::nat)]) (Map.empty) = Inr ([''wd/5.DefectDetected_images'' \<mapsto> [(''a.png'', File (1::nat))]])"
    by (simp add: DefectDetection_save_images_def fs_eval saved_samples_def cast_uint8_def)
  have d2: "DefectDetection_save_images ''wd'' ([(''x/b.png'', 2::nat)]) ([''wd/5.DefectDetected_images'' \<mapsto> [(''a.png'', File (1::nat))]]) = Inr ([''wd/5.DefectDetected_images'' \<mapsto> [(''b.png'', File (2::nat))]])"
    by (simp add: DefectDetection_save_images_def fs_eval saved_samples_def cast_uint8_def)
  have d0: "plain_names (Map.empty) (join ''wd'' ''5.DefectDetected_images'')"
    by (simp add: plain_names_def join_def)
  have k: "\<forall>n\<in>fst ` set ([(''A  B.png'', \<lparr>im_mode = Mode_RGB, im_size = (1, 1), im_bands = [[1], [2], [3]]\<rparr>)]) \<union> fst ` set ([(''C  D.png'', \<lparr>im_mode = Mode_RGB, im_size = (1, 1), im_bands = [[4], [5], [6]]\<rparr>)]). CHR ''/'' \<notin> set n" by simp
  note t = C5_replace [where wd = "''wd''" and a_init = "[''src'' \<mapsto> [(''a.png'', File (1::nat)), (''b.png'', File 2)]]" and a_mid = "[''src'' \<mapsto> [(''a.png'', File (1::nat)), (''b.png'', File 2)], ''wd/1.Acquired_images'' \<mapsto> [(''a.png'', File 1)]]" and a_end = "[''src'' \<mapsto> [(''a.png'', File (1::nat)), (''b.png'', File 2)], ''wd/1.Acquired_images'' \<mapsto> [(''b.png'', File 2)]]" and q_init = "[''src'' \<mapsto> [(''a.png'', File (1::nat)), (''b.png'', File 2)]]" and q_mid = "[''src'' \<mapsto> [(''a.png'', File (1::nat)), (''b.png'', File 2)], ''wd/2.IQA_images'' \<mapsto> [(''a.png'', File 1)]]" and q_end = "[''src'' \<mapsto> [(''a.png'', File (1::nat)), (''b.png'', File 2)], ''wd/2.IQA_images'' \<mapsto> [(''b.png'', File 2)]]" and p_init = "Map.empty" and p_mid = "[''wd/3.Preprocessed_images'' \<mapsto> [(''a.png'', File [1::nat])]]" and p_end = "[''wd/3.Preprocessed_images'' \<mapsto> [(''b.png'', File [2::nat])]]" and e_init = "Map.empty" and e_mid = "[''wd/4.Enrichment_images'' \<mapsto> [(''A B.png'', File \<lparr>im_mode = Mode_RGB, im_size = (1, 1), im_bands = [[1], [2], [3]]\<rparr>)]]" and e_end = "[''wd/4.Enrichment_images'' \<mapsto> [(''C D.png'', File \<lparr>im_mode = Mode_RGB, im_size = (1, 1), im_bands = [[4], [5], [6]]\<rparr>)]]" and d_init = "Map.empty" and d_mid = "[''wd/5.DefectDetected_images'' \<mapsto> [(''a.png'', File (1::nat))]]" and d_end = "[''wd/5.DefectDetected_images'' \<mapsto> [(''b.png'', File (2::nat))]]" and paths_one = "[''src/a.png'']" and paths_two = "[''src/b.png'']" and ls_one = "[\<lparr>composite_name = ''n'', cd_image_paths = [''src/a.png''], scores = [1], passed = [True], Composite_pass = True\<rparr>]" and ls_two = "[\<lparr>composite_name = ''n'', cd_image_paths = [''src/b.png''], scores = [1], passed = [True], Composite_pass = True\<rparr>]" and dict_one = "[(''src/a.png'', PILImage [1])]" and dict_two = "[(''src/b.png'', ndarray_float64 [5 / 2])]" and comps_one = "[(''A  B.png'', \<lparr>im_mode = Mode_RGB, im_size = (1, 1), im_bands = [[1], [2], [3]]\<rparr>)]" and comps_two = "[(''C  D.png'', \<lparr>im_mode = Mode_RGB, im_size = (1, 1), im_bands = [[4], [5], [6]]\<rparr>)]" and det_one = "[(''x/a.png'', 1::nat)]" and det_two = "[(''x/b.png'', 2::nat)]"]
  have ca: "listdir ([''src'' \<mapsto> [(''a.png'', File (1::nat)), (''b.png'', File 2)], ''wd/1.Acquired_images'' \<mapsto> [(''b.png'', File 2)]]) (join ''wd'' ''1.Acquired_images'') = {''b.png''}"
    using t [THEN conjunct1, THEN mp, OF conjI [OF a0 conjI [OF a1 a2]]]
    by (simp add: basename_def)
  have cq: "listdir ([''src'' \<mapsto> [(''a.png'', File (1::nat)), (''b.png'', File 2)], ''wd/2.IQA_images'' \<mapsto> [(''b.png'', File 2)]]) (join ''wd'' ''2.IQA_images'') = {''b.png''}"
    using t [THEN conjunct2, THEN conjunct1, THEN mp, OF conjI [OF q0 conjI [OF q1 q2]]]
    by (simp add: passed_paths_def basename_def)
  from t [THEN conjunct2, THEN conjunct2, THEN conjunct1, THEN mp, OF conjI [OF p0 conjI [OF p1 p2]]]
  obtain lp where "([''wd/3.Preprocessed_images'' \<mapsto> [(''b.png'', File [2::nat])]]) (join ''wd'' ''3.Preprocessed_images'') = Some lp"
    "fst ` set lp = basename ` fst ` set ([(''src/b.png'', ndarray_float64 [5 / 2])])" by blast
  then have cp: "listdir ([''wd/3.Preprocessed_images'' \<mapsto> [(''b.png'', File [2::nat])]]) (join ''wd'' ''3.Preprocessed_images'') = {''b.png''}"
    by (simp add: listdir_def basename_def)
  from t [THEN conjunct2, THEN conjunct2, THEN conjunct2, THEN conjunct1, THEN mp,
      OF conjI [OF e0 conjI [OF k conjI [OF e1 e2]]]]
  obtain le where "([''wd/4.Enrichment_images'' \<mapsto> [(''C D.png'', File \<lparr>im_mode = Mode_RGB, im_size = (1, 1), im_bands = [[4], [5], [6]]\<rparr>)]]) (join ''wd'' ''4.Enrichment_images'') = Some le"
    "fst ` set le = re_sub_2sp ` fst ` set ([(''C  D.png'', \<lparr>im_mode = Mode_RGB, im_size = (1, 1), im_bands = [[4], [5], [6]]\<rparr>)])" by blast
  then have ce: "listdir ([''wd/4.Enrichment_images'' \<mapsto> [(''C D.png'', File \<lparr>im_mode = Mode_RGB, im_size = (1, 1), im_bands = [[4], [5], [6]]\<rparr>)]]) (join ''wd'' ''4.Enrichment_images'') = {''C D.png''}"
    by (simp add: listdir_def)
  from t [THEN conjunct2, THEN conjunct2, THEN conjunct2, THEN conjunct2, THEN mp,
      OF conjI [OF d0 conjI [OF d1 d2]]]
  obtain ld where "([''wd/5.DefectDetected_images'' \<mapsto> [(''b.png'', File (2::nat))]]) (join ''wd'' ''5.DefectDetected_images'') = Some ld"
    "fst ` set ld = basename ` fst ` set ([(''x/b.png'', 2::nat)])" by blast
  then have cd: "listdir ([''wd/5.DefectDetected_images'' \<mapsto> [(''b.png'', File (2::nat))]]) (join ''wd'' ''5.DefectDetected_images'') = {''b.png''}"
    by (simp add: listdir_def basename_def)
  from a1 a2 ca q1 q2 cq p1 p2 cp e1 e2 ce d1 d2 cd show ?thesis by (intro conjI)
qed

section \<open>Claim C6: rescaling of the intensities\<close>

lemma np_interp_cases: "interp_cases f lo up x (np_interp f x (lo, up) (0, 255))"
  by (simp add: interp_cases_def np_interp_def)

lemma np_interp_point: "np_interp f x (b, b) (y0, y1) = (if x < b then y0 else y1)"
  by (simp add: np_interp_def)

lemma ends_of_constant:
  assumes "exact_on_constant f n c"
  shows "lower_end f (replicate n c) = c" and "upper_end f (replicate n c) = c"
proof -
  from assms have m: "mean f (replicate n c) = c"
    by (simp add: mean_def exact_on_constant_def)
  from assms have "map (\<lambda>d. fmul f d d) (map (\<lambda>a. fsub f a c) (replicate n c)) = replicate n 0"
    by (simp add: exact_on_constant_def)
  with assms m have sd: "std f (replicate n c) = 0"
    by (simp add: std_def exact_on_constant_def)
  from assms m sd show "lower_end f (replicate n c) = c"
    by (simp add: lower_end_def exact_on_constant_def)
  from assms m sd show "upper_end f (replicate n c) = c"
    by (simp add: upper_end_def exact_on_constant_def)
qed

text \<open>
  When no operation rounds and the standard deviation is positive, the interpolation is
  the line from \<open>mean - 2 std\<close> to \<open>mean + 2 std\<close>, cut off at 0 and 255.
\<close>

lemma Preprocess_step3_image_exact_line:
  assumes sd: "0 < std exact_arith (samples img)"
  shows "Preprocess_step3_image exact_arith img =
        ndarray_float64
          (map (\<lambda>x. if x \<le> mean exact_arith (samples img) - 2 * std exact_arith (samples img)
                    then 0
                    else if x \<ge> mean exact_arith (samples img) + 2 * std exact_arith (samples img)
                    then 255
                    else 255 * (x - (mean exact_arith (samples img)
                                      - 2 * std exact_arith (samples img)))
                           / (4 * std exact_arith (samples img)))
               (samples img))"
proof -
  let ?m = "mean exact_arith (samples img)" and ?sd = "std exact_arith (samples img)"
  have lo: "lower_end exact_arith (samples img) = ?m - 2 * ?sd"
    by (simp add: lower_end_def exact_arith_def)
  have up: "upper_end exact_arith (samples img) = ?m + 2 * ?sd"
    by (simp add: upper_end_def exact_arith_def)
  have "np_interp exact_arith x (?m - 2 * ?sd, ?m + 2 * ?sd) (0, 255) =
      (if x \<le> ?m - 2 * ?sd then 0 else if x \<ge> ?m + 2 * ?sd then 255
       else 255 * (x - (?m - 2 * ?sd)) / (4 * ?sd))" for x
    using sd by (auto simp: np_interp_def exact_arith_def)
  then show ?thesis by (simp add: Preprocess_step3_image_def Let_def lo up)
qed

text \<open>
  Claim C6. \<open>Preprocess_step3\<close> maps \<open>[mean - 2 std, mean + 2 std]\<close> linearly onto
  \<open>[0, 255]\<close>, samples outside going to the ends, and for a constant image the output is
  a single constant value, by an explicit policy for \<open>std = 0\<close> such as returning the
  input value unchanged. The source has no such policy. For the 8-bit image with the
  three samples 7 every operation of step 3 is exact: the mean is 7 and the standard
  deviation is 0, both ends of the interval are 7, and \<open>np.interp\<close> gives its last value
  for a sample at the upper end. Every sample of the result is 255, and the file holds
  255, not the input value 7.
\<close>

theorem C6_counterexample:
  "mean exact_arith (samples (ndarray_uint8 [7, 7, 7])) = 7
   \<and> std exact_arith (samples (ndarray_uint8 [7, 7, 7])) = 0
   \<and> Preprocess_step3 exact_arith [(''d/a.png'', ndarray_uint8 [7, 7, 7])]
       = [(''d/a.png'', ndarray_float64 [255, 255, 255])]
   \<and> Preprocess_step3 exact_arith [(''d/a.png'', ndarray_uint8 [7, 7, 7])]
       \<noteq> [(''d/a.png'', ndarray_float64 [7, 7, 7])]
   \<and> saved_samples (ndarray_float64 [255, 255, 255]) = [255, 255, 255]"
  by (simp add: Preprocess_step3_def Preprocess_step3_image_def samples_def lower_end_def
      upper_end_def mean_def std_def np_interp_def exact_arith_def saved_samples_def
      cast_uint8_def Let_def)

text \<open>
  Claim C6, amended. For every way of rounding, and every image of \<open>images_dict\<close>,
  \<open>Preprocess_step3\<close> stores under the path of the image an array of \<open>float64\<close> with one
  value for every sample. With \<open>lo\<close> and \<open>up\<close> the computed values of \<open>m-sd*2\<close> and
  \<open>m+sd*2\<close>: a sample above \<open>up\<close> gives 255 and a sample below \<open>lo\<close> gives 0; the ends
  themselves give 255 and 0; a sample between them gives the computed value of
  \<open>255 / (up - lo) * (x - lo)\<close>, and this is the only case in which the quotient is
  used, so its divisor is not zero there. There is no policy for \<open>std = 0\<close>: when the two
  ends are equal, a sample gives 0 below them and 255 otherwise. A constant image comes
  out as a constant image; when the operations on its samples do not round (as for every
  8-bit image), its value is 255, whatever the input value was.
\<close>

theorem C6_rescale:
  assumes "i < length images_dict" and "images_dict ! i = (path, img)"
  shows "\<exists>out. Preprocess_step3 f images_dict ! i = (path, ndarray_float64 out)
     \<and> length out = length (samples img)
     \<and> (\<forall>j<length out.
           interp_cases f (lower_end f (samples img)) (upper_end f (samples img))
             (samples img ! j) (out ! j))
     \<and> (lower_end f (samples img) = upper_end f (samples img) \<longrightarrow>
           out = map (\<lambda>x. if x < lower_end f (samples img) then 0 else 255) (samples img))
     \<and> (\<forall>n c. samples img = replicate n c \<longrightarrow> (\<exists>v. out = replicate n v))
     \<and> (\<forall>n c. samples img = replicate n c \<and> exact_on_constant f n c \<longrightarrow>
           out = replicate n 255)"
proof -
  let ?arr = "samples img"
  let ?lo = "lower_end f ?arr" and ?up = "upper_end f ?arr"
  define out where "out = map (\<lambda>x. np_interp f x (?lo, ?up) (0, 255)) ?arr"
  have st: "Preprocess_step3 f images_dict ! i = (path, ndarray_float64 out)"
    using assms by (simp add: Preprocess_step3_def Preprocess_step3_image_def Let_def out_def)
  have len: "length out = length ?arr" by (simp add: out_def)
  have cases: "\<forall>j<length out. interp_cases f ?lo ?up (?arr ! j) (out ! j)"
    by (simp add: out_def np_interp_cases)
  have point: "out = map (\<lambda>x. if x < ?lo then 0 else 255) ?arr" if "?lo = ?up"
    using that by (simp add: out_def np_interp_point [of f _ "?up"])
  have const: "\<exists>v. out = replicate n v" if "?arr = replicate n c" for n c
    using that by (simp add: out_def)
  have exact: "out = replicate n 255" if "?arr = replicate n c \<and> exact_on_constant f n c" for n c
  proof -
    from that have a: "?arr = replicate n c" and e: "exact_on_constant f n c" by simp_all
    from ends_of_constant [OF e] a have "?lo = c" "?up = c" by simp_all
    then show ?thesis using a by (simp add: out_def np_interp_point)
  qed
  from st len cases point const exact show ?thesis by blast
qed

theorem C6_rescale_witness:
  "Preprocess_step3 exact_arith
       [(''d/a.png'', PILImage [0, 2]), (''d/b.png'', ndarray_uint8 [7, 7, 7])] ! 1
     = (''d/b.png'', ndarray_float64 [255, 255, 255])
   \<and> (\<exists>out. Preprocess_step3 exact_arith
                [(''d/a.png'', PILImage [0, 2]), (''d/b.png'', ndarray_uint8 [7, 7, 7])] ! 0
              = (''d/a.png'', ndarray_float64 out)
            \<and> out ! 0 = 255 / 4 \<and> out ! 1 = 765 / 4)"
proof -
  let ?D = "[(''d/a.png'', PILImage [0, 2]), (''d/b.png'', ndarray_uint8 [7, 7, 7])]"
  have i1: "1 < length ?D" and d1: "?D ! 1 = (''d/b.png'', ndarray_uint8 [7, 7, 7])"
    by simp_all
  have i0: "0 < length ?D" and d0: "?D ! 0 = (''d/a.png'', PILImage [0, 2])"
    by simp_all
  have s1: "samples (ndarray_uint8 [7, 7, 7]) = replicate 3 7"
    by (simp add: samples_def numeral_3_eq_3)
  have e1: "exact_on_constant exact_arith 3 7"
    by (simp add: exact_on_constant_def exact_arith_def numeral_3_eq_3)
  from C6_rescale [OF i1 d1, of exact_arith] obtain out where
    st: "Preprocess_step3 exact_arith ?D ! 1 = (''d/b.png'', ndarray_float64 out)"
    and ex: "\<forall>n c. samples (ndarray_uint8 [7, 7, 7]) = replicate n c
               \<and> exact_on_constant exact_arith n c \<longrightarrow> out = replicate n 255"
    by blast
  from ex s1 e1 have "out = replicate 3 255" by blast
  with st have one: "Preprocess_step3 exact_arith ?D ! 1
      = (''d/b.png'', ndarray_float64 [255, 255, 255])"
    by (simp add: numeral_3_eq_3)
  have s0: "samples (PILImage [0, 2]) = [0, 2]" by (simp add: samples_def)
  have m0: "mean exact_arith [0, 2] = 1" by (simp add: mean_def exact_arith_def)
  have sd0: "std exact_arith [0, 2] = 1" by (simp add: std_def mean_def exact_arith_def)
  have lo: "lower_end exact_arith [0, 2] = - 1"
    by (simp add: lower_end_def m0 sd0) (simp add: exact_arith_def)
  have up: "upper_end exact_arith [0, 2] = 3"
    by (simp add: upper_end_def m0 sd0) (simp add: exact_arith_def)
  from C6_rescale [OF i0 d0, of exact_arith] obtain out' where
    st': "Preprocess_step3 exact_arith ?D ! 0 = (''d/a.png'', ndarray_float64 out')"
    and len: "length out' = length (samples (PILImage [0, 2]))"
    and cs: "\<forall>j<length out'.
           interp_cases exact_arith (lower_end exact_arith (samples (PILImage [0, 2])))
             (upper_end exact_arith (samples (PILImage [0, 2])))
             (samples (PILImage [0, 2]) ! j) (out' ! j)"
    by blast
  from len have l2: "length out' = 2" by (simp add: s0)
  from cs l2 have c: "\<forall>j<2. interp_cases exact_arith (- 1) 3 ([0, 2] ! j) (out' ! j)"
    by (simp add: s0 lo up)
  from c [rule_format, of 0] c [rule_format, of 1]
  have "interp_cases exact_arith (- 1) 3 0 (out' ! 0)"
    and "interp_cases exact_arith (- 1) 3 2 (out' ! 1)"
    by simp_all
  then have "out' ! 0 = 255 / 4" and "out' ! 1 = 765 / 4"
    by (simp_all add: interp_cases_def exact_arith_def)
  with st' have "\<exists>out. Preprocess_step3 exact_arith ?D ! 0 = (''d/a.png'', ndarray_float64 out)
            \<and> out ! 0 = 255 / 4 \<and> out ! 1 = 765 / 4"
    by blast
  with one show ?thesis by (intro conjI)
qed
section \<open>Claim C7: clipping at the quartile bounds\<close>
















section \<open>Claim C8: the names of the saved files\<close>

lemma re_sub_2sp_single_spaced: "single_spaced s \<Longrightarrow> re_sub_2sp s = s"
  by (induction s rule: single_spaced.induct) auto

lemma re_sub_2sp_separator:
  "single_spaced p \<Longrightarrow> p = [] \<or> last p \<noteq> CHR '' '' \<Longrightarrow>
   re_sub_2sp (p @ CHR '' '' # CHR '' '' # s) = p @ CHR '' '' # re_sub_2sp s"
  by (induction p rule: single_spaced.induct) (auto split: if_splits)

text \<open>
  Claim C8. Enrichment saves the merged image of a group under the name of the group with
  the double space made a single space; every other stage saves under the file names of
  its sources. Here: after a successful \<open>save_images\<close> of enrichment the names in
  \<open>4.Enrichment_images\<close> are the names of the composites with every pair of spaces
  replaced by one space, and for a name \<open>prefix + two spaces + suffix\<close> whose prefix and
  suffix have no neighbouring spaces (the prefix not ending in a space) that is
  \<open>prefix + one space + suffix\<close>; after a successful \<open>save_images\<close> of acquisition, IQA,
  preprocessing and defect detection the names in the stage directory are the
  \<open>basename\<close>s of the source paths.
\<close>

theorem C8_names:
  "(plain_names fe (join wd ''4.Enrichment_images'')
      \<and> (\<forall>n\<in>fst ` set comps. CHR ''/'' \<notin> set n)
      \<and> Enrichment_save_images wd comps fe = Inr ge
    \<longrightarrow> listdir ge (join wd ''4.Enrichment_images'') = re_sub_2sp ` fst ` set comps)
   \<and> (single_spaced p \<and> single_spaced s \<and> (p = [] \<or> last p \<noteq> CHR '' '')
    \<longrightarrow> re_sub_2sp (p @ ''  '' @ s) = p @ '' '' @ s)
   \<and> (plain_names fa (join wd ''1.Acquired_images'')
      \<and> Acquisition_save_images wd paths fa = Inr ga
    \<longrightarrow> listdir ga (join wd ''1.Acquired_images'') = basename ` set paths)
   \<and> (plain_names fq (join wd ''2.IQA_images'')
      \<and> IQA_save_images wd ls fq = Inr gq
    \<longrightarrow> listdir gq (join wd ''2.IQA_images'') = basename ` set (passed_paths ls))
   \<and> (plain_names fp (join wd ''3.Preprocessed_images'')
      \<and> Preprocess_save_images wd dict fp = Inr gp
    \<longrightarrow> listdir gp (join wd ''3.Preprocessed_images'') = basename ` fst ` set dict)
   \<and> (plain_names fd (join wd ''5.DefectDetected_images'')
      \<and> DefectDetection_save_images wd det fd = Inr gd
    \<longrightarrow> listdir gd (join wd ''5.DefectDetected_images'') = basename ` fst ` set det)"
proof (intro conjI impI)
  assume h: "plain_names fe (join wd ''4.Enrichment_images'')
      \<and> (\<forall>n\<in>fst ` set comps. CHR ''/'' \<notin> set n)
      \<and> Enrichment_save_images wd comps fe = Inr ge"
  then have 1: "plain_names fe (join wd ''4.Enrichment_images'')"
    and 2: "\<forall>n\<in>fst ` set comps. CHR ''/'' \<notin> set n"
    and 3: "Enrichment_save_images wd comps fe = Inr ge" by simp_all
  from Enrichment_save_images_listing [OF 3 1 2]
  obtain l where "ge (join wd ''4.Enrichment_images'') = Some l"
    "fst ` set l = re_sub_2sp ` fst ` set comps" by blast
  then show "listdir ge (join wd ''4.Enrichment_images'') = re_sub_2sp ` fst ` set comps"
    by (simp add: listdir_def)
next
  assume "single_spaced p \<and> single_spaced s \<and> (p = [] \<or> last p \<noteq> CHR '' '')"
  then have 1: "single_spaced p" and 2: "single_spaced s"
    and 3: "p = [] \<or> last p \<noteq> CHR '' ''" by simp_all
  show "re_sub_2sp (p @ ''  '' @ s) = p @ '' '' @ s"
    using re_sub_2sp_separator [OF 1 3, of s] re_sub_2sp_single_spaced [OF 2] by simp
next
  assume "plain_names fa (join wd ''1.Acquired_images'')
      \<and> Acquisition_save_images wd paths fa = Inr ga"
  then have 1: "plain_names fa (join wd ''1.Acquired_images'')"
    and 2: "Acquisition_save_images wd paths fa = Inr ga" by simp_all
  show "listdir ga (join wd ''1.Acquired_images'') = basename ` set paths"
    by (rule Acquisition_save_images_listing [OF 2 1])
next
  assume "plain_names fq (join wd ''2.IQA_images'') \<and> IQA_save_images wd ls fq = Inr gq"
  then have 1: "plain_names fq (join wd ''2.IQA_images'')"
    and 2: "IQA_save_images wd ls fq = Inr gq" by simp_all
  show "listdir gq (join wd ''2.IQA_images'') = basename ` set (passed_paths ls)"
    by (rule IQA_save_images_listing [OF 2 1])
next
  assume "plain_names fp (join wd ''3.Preprocessed_images'')
      \<and> Preprocess_save_images wd dict fp = Inr gp"
  then have 1: "plain_names fp (join wd ''3.Preprocessed_images'')"
    and 2: "Preprocess_save_images wd dict fp = Inr gp" by simp_all
  from Preprocess_save_images_listing [OF 2 1]
  obtain l where "gp (join wd ''3.Preprocessed_images'') = Some l"
    "fst ` set l = basename ` fst ` set dict" by blast
  then show "listdir gp (join wd ''3.Preprocessed_images'') = basename ` fst ` set dict"
    by (simp add: listdir_def)
next
  assume "plain_names fd (join wd ''5.DefectDetected_images'')
      \<and> DefectDetection_save_images wd det fd = Inr gd"
  then have 1: "plain_names fd (join wd ''5.DefectDetected_images'')"
    and 2: "DefectDetection_save_images wd det fd = Inr gd" by simp_all
  from DefectDetection_save_images_listing [OF 2 1]
  obtain l where "gd (join wd ''5.DefectDetected_images'') = Some l"
    "fst ` set l = basename ` fst ` set det" by blast
  then show "listdir gd (join wd ''5.DefectDetected_images'') = basename ` fst ` set det"
    by (simp add: listdir_def)
qed

theorem C8_names_witness:
  "Enrichment_save_images ''wd'' [(''SampleA  SampleB.png'', \<lparr>im_mode = Mode_RGB, im_size = (1, 1), im_bands = [[10], [20], [30]]\<rparr>)] Map.empty
     = Inr [''wd/4.Enrichment_images'' \<mapsto> [(''SampleA SampleB.png'', File \<lparr>im_mode = Mode_RGB, im_size = (1, 1), im_bands = [[10], [20], [30]]\<rparr>)]]
   \<and> listdir [''wd/4.Enrichment_images'' \<mapsto> [(''SampleA SampleB.png'', File \<lparr>im_mode = Mode_RGB, im_size = (1, 1), im_bands = [[10], [20], [30]]\<rparr>)]]
        (join ''wd'' ''4.Enrichment_images'') = {''SampleA SampleB.png''}
   \<and> re_sub_2sp (''SampleA'' @ ''  '' @ ''SampleB.png'') = ''SampleA'' @ '' '' @ ''SampleB.png''
   \<and> Acquisition_save_images ''wd'' [''src/A 1Hz B.png'']
        [''src'' \<mapsto> [(''A 1Hz B.png'', File (7::nat))]]
     = Inr [''src'' \<mapsto> [(''A 1Hz B.png'', File 7)],
            ''wd/1.Acquired_images'' \<mapsto> [(''A 1Hz B.png'', File 7)]]
   \<and> listdir [''src'' \<mapsto> [(''A 1Hz B.png'', File (7::nat))],
            ''wd/1.Acquired_images'' \<mapsto> [(''A 1Hz B.png'', File 7)]]
        (join ''wd'' ''1.Acquired_images'') = {''A 1Hz B.png''}
   \<and> Preprocess_save_images ''wd'' [(''src/A 1Hz B.png'', ndarray_uint8 [3, 4])] Map.empty
     = Inr [''wd/3.Preprocessed_images'' \<mapsto> [(''A 1Hz B.png'', File [3, 4])]]
   \<and> listdir [''wd/3.Preprocessed_images'' \<mapsto> [(''A 1Hz B.png'', File [3, 4::nat])]]
        (join ''wd'' ''3.Preprocessed_images'') = {''A 1Hz B.png''}
   \<and> IQA_save_images ''wd'' [\<lparr>composite_name = ''A  B.png'', cd_image_paths = [''src/A 1Hz B.png''], scores = [1], passed = [True], Composite_pass = True\<rparr>] [''src'' \<mapsto> [(''A 1Hz B.png'', File (7::nat))]]
     = Inr [''src'' \<mapsto> [(''A 1Hz B.png'', File 7)],
            ''wd/2.IQA_images'' \<mapsto> [(''A 1Hz B.png'', File 7)]]
   \<and> listdir [''src'' \<mapsto> [(''A 1Hz B.png'', File (7::nat))],
            ''wd/2.IQA_images'' \<mapsto> [(''A 1Hz B.png'', File 7)]]
        (join ''wd'' ''2.IQA_images'') = {''A 1Hz B.png''}
   \<and> DefectDetection_save_images ''wd'' [(''src/A B.png'', 5::nat)] Map.empty
     = Inr [''wd/5.DefectDetected_images'' \<mapsto> [(''A B.png'', File 5)]]
   \<and> listdir [''wd/5.DefectDetected_images'' \<mapsto> [(''A B.png'', File (5::nat))]]
        (join ''wd'' ''5.DefectDetected_images'') = {''A B.png''}"
proof -
  let ?gq = "[''src'' \<mapsto> [(''A 1Hz B.png'', File (7::nat))],
            ''wd/2.IQA_images'' \<mapsto> [(''A 1Hz B.png'', File 7)]]"
  let ?gd = "[''wd/5.DefectDetected_images'' \<mapsto> [(''A B.png'', File (5::nat))]]"
  let ?comps = "[(''SampleA  SampleB.png'', \<lparr>im_mode = Mode_RGB, im_size = (1, 1), im_bands = [[10], [20], [30]]\<rparr>)]"
  let ?ge = "[''wd/4.Enrichment_images'' \<mapsto> [(''SampleA SampleB.png'', File \<lparr>im_mode = Mode_RGB, im_size = (1, 1), im_bands = [[10], [20], [30]]\<rparr>)]]"
  let ?fa = "[''src'' \<mapsto> [(''A 1Hz B.png'', File (7::nat))]]"
  let ?ga = "[''src'' \<mapsto> [(''A 1Hz B.png'', File (7::nat))],
            ''wd/1.Acquired_images'' \<mapsto> [(''A 1Hz B.png'', File 7)]]"
  let ?dict = "[(''src/A 1Hz B.png'', ndarray_uint8 [3, 4])]"
  let ?gp = "[''wd/3.Preprocessed_images'' \<mapsto> [(''A 1Hz B.png'', File [3, 4::nat])]]"
  note t = C8_names [where wd = "''wd''" and comps = ?comps and fe = Map.empty and ge = ?ge
      and p = "''SampleA''" and s = "''SampleB.png''"
      and fa = ?fa and ga = ?ga and paths = "[''src/A 1Hz B.png'']"
      and fp = Map.empty and gp = ?gp and dict = ?dict
      and fq = ?fa and gq = ?gq and ls = "[\<lparr>composite_name = ''A  B.png'', cd_image_paths = [''src/A 1Hz B.png''], scores = [1], passed = [True], Composite_pass = True\<rparr>]"
      and fd = Map.empty and gd = ?gd and det = "[(''src/A B.png'', 5::nat)]"]
  have e0: "plain_names (Map.empty :: pil_image fs) (join ''wd'' ''4.Enrichment_images'')"
    by (simp add: plain_names_def)
  have e1: "\<forall>n\<in>fst ` set ?comps. CHR ''/'' \<notin> set n" by simp
  have e2: "Enrichment_save_images ''wd'' ?comps Map.empty = Inr ?ge"
    by (simp add: Enrichment_save_images_def fs_eval)
  have ce: "listdir ?ge (join ''wd'' ''4.Enrichment_images'') = {''SampleA SampleB.png''}"
    using t [THEN conjunct1, THEN mp, OF conjI [OF e0 conjI [OF e1 e2]]] by simp
  have s0: "single_spaced ''SampleA'' \<and> single_spaced ''SampleB.png''
      \<and> (''SampleA'' = [] \<or> last ''SampleA'' \<noteq> CHR '' '')" by simp
  note cs = t [THEN conjunct2, THEN conjunct1, THEN mp, OF s0]
  have a0: "plain_names ?fa (join ''wd'' ''1.Acquired_images'')"
    by (simp add: plain_names_def join_def)
  have a1: "Acquisition_save_images ''wd'' [''src/A 1Hz B.png''] ?fa = Inr ?ga"
    by (simp add: Acquisition_save_images_def fs_eval)
  have ca: "listdir ?ga (join ''wd'' ''1.Acquired_images'') = {''A 1Hz B.png''}"
    using t [THEN conjunct2, THEN conjunct2, THEN conjunct1, THEN mp, OF conjI [OF a0 a1]]
    by (simp add: basename_def)
  have p0: "plain_names (Map.empty :: nat list fs) (join ''wd'' ''3.Preprocessed_images'')"
    by (simp add: plain_names_def)
  have p1: "Preprocess_save_images ''wd'' ?dict Map.empty = Inr ?gp"
    by (simp add: Preprocess_save_images_def fs_eval saved_samples_def)
  have cp: "listdir ?gp (join ''wd'' ''3.Preprocessed_images'') = {''A 1Hz B.png''}"
    using t [THEN conjunct2, THEN conjunct2, THEN conjunct2, THEN conjunct2, THEN conjunct1,
        THEN mp, OF conjI [OF p0 p1]]
    by (simp add: basename_def)
  have q0: "plain_names ?fa (join ''wd'' ''2.IQA_images'')"
    by (simp add: plain_names_def join_def)
  have q1: "IQA_save_images ''wd'' [\<lparr>composite_name = ''A  B.png'', cd_image_paths = [''src/A 1Hz B.png''], scores = [1], passed = [True], Composite_pass = True\<rparr>] ?fa = Inr ?gq"
    by (simp add: IQA_save_images_def fs_eval)
  have cq: "listdir ?gq (join ''wd'' ''2.IQA_images'') = {''A 1Hz B.png''}"
    using t [THEN conjunct2, THEN conjunct2, THEN conjunct2, THEN conjunct1, THEN mp,
        OF conjI [OF q0 q1]]
    by (simp add: passed_paths_def basename_def)
  have d0: "plain_names (Map.empty :: nat fs) (join ''wd'' ''5.DefectDetected_images'')"
    by (simp add: plain_names_def)
  have d1: "DefectDetection_save_images ''wd'' [(''src/A B.png'', 5::nat)] Map.empty = Inr ?gd"
    by (simp add: DefectDetection_save_images_def fs_eval)
  have cd: "listdir ?gd (join ''wd'' ''5.DefectDetected_images'') = {''A B.png''}"
    using t [THEN conjunct2, THEN conjunct2, THEN conjunct2, THEN conjunct2, THEN conjunct2,
        THEN mp, OF conjI [OF d0 d1]]
    by (simp add: basename_def)
  from e2 ce cs a1 ca p1 cp q1 cq d1 cd show ?thesis by (intro conjI)
qed

section \<open>Claim C9: the detections and their images\<close>

lemma above_threshold_nonempty:
  "above_threshold t preds \<noteq> [] \<longleftrightarrow> (\<exists>q\<in>set preds. t < score q)"
  by (auto simp: above_threshold_def filter_empty_conv)

lemma defect_detection_Cons:
  assumes A: "defect_detection lib t (x # paths) d0 = Inr d"
  shows "\<exists>img preds d1. read_image lib x = Inr img \<and> forward lib img = Inr preds
    \<and> defect_detection lib t paths d1 = Inr d
    \<and> (above_threshold t preds = [] \<longrightarrow> d1 = d0)
    \<and> (above_threshold t preds \<noteq> [] \<longrightarrow>
       (\<exists>c. annotate lib img (above_threshold t preds) = Inr c \<and> d1 = AList.update x c d0))"
proof (cases "read_image lib x")
  case (Inl e)
  with A show ?thesis by simp
next
  case r: (Inr img)
  show ?thesis
  proof (cases "forward lib img")
    case (Inl e)
    with A r show ?thesis by simp
  next
    case f: (Inr preds)
    show ?thesis
    proof (cases "above_threshold t preds = []")
      case True
      with A r f have "defect_detection lib t paths d0 = Inr d" by (simp add: Let_def)
      with r f True show ?thesis by simp
    next
      case False
      show ?thesis
      proof (cases "annotate lib img (above_threshold t preds)")
        case (Inl e)
        with A r f False show ?thesis by (simp add: Let_def)
      next
        case (Inr c)
        with A r f False
        have "defect_detection lib t paths (AList.update x c d0) = Inr d"
          by (simp add: Let_def)
        with r f False Inr show ?thesis by simp
      qed
    qed
  qed
qed

lemma defect_detection_keys:
  "defect_detection lib t paths d0 = Inr d \<Longrightarrow>
   fst ` set d = fst ` set d0 \<union>
     {p \<in> set paths. \<exists>img preds. read_image lib p = Inr img \<and> forward lib img = Inr preds
                        \<and> above_threshold t preds \<noteq> []}"
proof (induction paths arbitrary: d0)
  case Nil
  then show ?case by simp
next
  case (Cons x paths)
  from Cons.prems(1) obtain img preds d1 where
    r: "read_image lib x = Inr img" and f: "forward lib img = Inr preds"
    and rest: "defect_detection lib t paths d1 = Inr d"
    and skip: "above_threshold t preds = [] \<longrightarrow> d1 = d0"
    and keep: "above_threshold t preds \<noteq> [] \<longrightarrow>
       (\<exists>c. annotate lib img (above_threshold t preds) = Inr c \<and> d1 = AList.update x c d0)"
    using defect_detection_Cons [of lib t x paths d0 d] by blast
  note IH = Cons.IH [OF rest]
  show ?case
  proof (cases "above_threshold t preds = []")
    case True
    with skip have "d1 = d0" by simp
    with IH True r f show ?thesis by auto
  next
    case False
    with keep obtain c where "d1 = AList.update x c d0" by blast
    then have "fst ` set d1 = insert x (fst ` set d0)" by (simp add: dom_update)
    with IH False r f show ?thesis by auto
  qed
qed

lemma defect_detection_other:
  "defect_detection lib t paths d0 = Inr d \<Longrightarrow> p \<notin> set paths \<Longrightarrow> map_of d p = map_of d0 p"
proof (induction paths arbitrary: d0)
  case Nil
  then show ?case by simp
next
  case (Cons x paths)
  from Cons.prems(1) obtain img preds d1 where
    rest: "defect_detection lib t paths d1 = Inr d"
    and skip: "above_threshold t preds = [] \<longrightarrow> d1 = d0"
    and keep: "above_threshold t preds \<noteq> [] \<longrightarrow>
       (\<exists>c. annotate lib img (above_threshold t preds) = Inr c \<and> d1 = AList.update x c d0)"
    using defect_detection_Cons [of lib t x paths d0 d] by blast
  from Cons.prems(2) have px: "p \<noteq> x" and pn: "p \<notin> set paths" by auto
  from skip keep px have "map_of d1 p = map_of d0 p"
    by (cases "above_threshold t preds = []") (auto simp: update_conv')
  with Cons.IH [OF rest pn] show ?case by simp
qed

lemma defect_detection_entry:
  "defect_detection lib t paths d0 = Inr d \<Longrightarrow> p \<in> set paths \<Longrightarrow>
   \<exists>img preds. read_image lib p = Inr img \<and> forward lib img = Inr preds
     \<and> (above_threshold t preds = [] \<longrightarrow> map_of d p = map_of d0 p)
     \<and> (above_threshold t preds \<noteq> [] \<longrightarrow>
          (\<exists>c. annotate lib img (above_threshold t preds) = Inr c \<and> map_of d p = Some c))"
proof (induction paths arbitrary: d0)
  case Nil
  then show ?case by simp
next
  case (Cons x paths)
  from Cons.prems(1) obtain img preds d1 where
    r: "read_image lib x = Inr img" and f: "forward lib img = Inr preds"
    and rest: "defect_detection lib t paths d1 = Inr d"
    and skip: "above_threshold t preds = [] \<longrightarrow> d1 = d0"
    and keep: "above_threshold t preds \<noteq> [] \<longrightarrow>
       (\<exists>c. annotate lib img (above_threshold t preds) = Inr c \<and> d1 = AList.update x c d0)"
    using defect_detection_Cons [of lib t x paths d0 d] by blast
  show ?case
  proof (cases "p \<in> set paths")
    case True
    from Cons.IH [OF rest True] obtain img' preds' where
      r': "read_image lib p = Inr img'" and f': "forward lib img' = Inr preds'"
      and s': "above_threshold t preds' = [] \<longrightarrow> map_of d p = map_of d1 p"
      and k': "above_threshold t preds' \<noteq> [] \<longrightarrow>
          (\<exists>c. annotate lib img' (above_threshold t preds') = Inr c \<and> map_of d p = Some c)"
      by blast
    have "map_of d1 p = map_of d0 p" if e: "above_threshold t preds' = []"
    proof (cases "p = x")
      case True
      with r r' f f' have "preds' = preds" by simp
      with e skip show ?thesis by simp
    next
      case False
      with skip keep show ?thesis
        by (cases "above_threshold t preds = []") (auto simp: update_conv')
    qed
    with r' f' s' k' show ?thesis by auto
  next
    case False
    with Cons.prems(2) have px: "p = x" by simp
    from defect_detection_other [OF rest False] have m: "map_of d p = map_of d1 p" .
    show ?thesis
    proof (cases "above_threshold t preds = []")
      case True
      with skip m r f px show ?thesis by auto
    next
      case False
      with keep obtain c where "annotate lib img (above_threshold t preds) = Inr c"
        "d1 = AList.update x c d0" by blast
      with m r f px False show ?thesis by (auto simp: update_conv')
    qed
  qed
qed

lemma draw_scores_match:
  "draw_scores lib font kept img = Inr c \<Longrightarrow>
   \<forall>q\<in>set kept. re_search_score (tensor_str lib (score q)) \<noteq> None"
  by (induction kept arbitrary: img) (auto split: option.splits sum.splits)

lemma annotate_match:
  "annotate lib img kept = Inr c \<Longrightarrow>
   \<forall>q\<in>set kept. re_search_score (tensor_str lib (score q)) \<noteq> None"
  using draw_scores_match by (fastforce simp: annotate_def split: sum.splits)

text \<open>
  The search for the text of a score fails for the score 1, which torch prints as
  \<open>tensor(1.)\<close>: the image \<open>d/c.png\<close> of the examples has a prediction with this score,
  and the method raises \<open>AttributeError\<close> when it comes to it.
\<close>

lemma defect_detection_score_one:
  "re_search_score ''tensor(0.7500)'' = Some ''0.7500''
   \<and> re_search_score ''tensor(1.)'' = None
   \<and> defect_detection example_library 0.5 [''d/a.png'', ''d/c.png''] [] = Inl AttributeError"
  by (simp add: example_library_def example_forward_def example_tensor_str_def
      above_threshold_def annotate_def is_digit_def Let_def)

text \<open>
  Claim C9. The detector keeps exactly the detections whose score exceeds the threshold,
  each one on its own, and the save step writes one annotated image for every input path.
  The last part fails on the code: an image without a detection above the threshold is
  skipped by \<open>continue\<close> and has no entry in \<open>defect_images_dict\<close>. Below, with the
  threshold 0.5, the image \<open>d/b.png\<close> has one prediction of score 0.125; the method
  returns, and no file \<open>b.png\<close> is written.
\<close>

theorem C9_counterexample:
  "defect_detection example_library 0.5 [''d/a.png'', ''d/b.png''] []
   = Inr [(''d/a.png'', (''d/a.png'', 1, [((1, 1), ''0.7500'')]))]
   \<and> DefectDetection_save_images ''wd''
        [(''d/a.png'', (''d/a.png'', 1::nat, [((1::real, 1::real), ''0.7500'')]))] Map.empty
     = Inr [''wd/5.DefectDetected_images'' \<mapsto>
              [(''a.png'', File (''d/a.png'', 1, [((1, 1), ''0.7500'')]))]]
   \<and> ''b.png'' \<notin> listdir [''wd/5.DefectDetected_images'' \<mapsto>
              [(''a.png'', File (''d/a.png'', 1::nat, [((1::real, 1::real), ''0.7500'')]))]]
                     (join ''wd'' ''5.DefectDetected_images'')"
  by (simp add: example_library_def example_forward_def example_tensor_str_def
      above_threshold_def annotate_def is_digit_def Let_def
      DefectDetection_save_images_def fs_eval)

text \<open>
  Claim C9, amended. The detections that are kept for an image are exactly its
  predictions with a score above the threshold, and whether one is kept does not depend on
  the others (the selection of a list put together from two lists is the two selections
  put together). When \<open>defect_detection\<close> returns, every call for every input path has
  returned; the paths in \<open>defect_images_dict\<close> are the input paths that have at least one
  prediction above the threshold; the image stored for such a path is the result of the
  drawing for its image and its kept predictions, and the text of each of their scores
  had a match; a path with no prediction above the threshold has no entry. After a
  successful \<open>save_images\<close> the names in \<open>5.DefectDetected_images\<close> are the file names of
  the paths with at least one prediction above the threshold, so a path without one gets
  no file. What happens when a call raises, or when the text of a kept score has no match,
  is not part of the statement.
\<close>

theorem C9_detections:
  "set (above_threshold t preds) = {q \<in> set preds. t < score q}
   \<and> above_threshold t (xs @ ys) = above_threshold t xs @ above_threshold t ys
   \<and> (defect_detection lib t paths [] = Inr d \<longrightarrow>
        fst ` set d = {p \<in> set paths. \<exists>img out. read_image lib p = Inr img
                          \<and> forward lib img = Inr out \<and> (\<exists>q\<in>set out. t < score q)}
        \<and> (\<forall>p\<in>set paths. \<exists>img out. read_image lib p = Inr img \<and> forward lib img = Inr out
              \<and> ((\<forall>q\<in>set out. score q \<le> t) \<longrightarrow> map_of d p = None)
              \<and> ((\<exists>q\<in>set out. t < score q) \<longrightarrow>
                   (\<exists>c. annotate lib img (above_threshold t out) = Inr c \<and> map_of d p = Some c
                      \<and> (\<forall>q\<in>set out. t < score q \<longrightarrow>
                            re_search_score (tensor_str lib (score q)) \<noteq> None)))))
   \<and> (defect_detection lib t paths [] = Inr d
      \<and> plain_names fs (join wd ''5.DefectDetected_images'')
      \<and> DefectDetection_save_images wd d fs = Inr fs'
    \<longrightarrow> listdir fs' (join wd ''5.DefectDetected_images'')
          = basename ` {p \<in> set paths. \<exists>img out. read_image lib p = Inr img
                          \<and> forward lib img = Inr out \<and> (\<exists>q\<in>set out. t < score q)})"
proof -
  have a: "set (above_threshold t preds) = {q \<in> set preds. t < score q}"
    by (auto simp: above_threshold_def)
  have b: "above_threshold t (xs @ ys) = above_threshold t xs @ above_threshold t ys"
    by (simp add: above_threshold_def)
  have keys: "fst ` set d = {p \<in> set paths. \<exists>img out. read_image lib p = Inr img
                          \<and> forward lib img = Inr out \<and> (\<exists>q\<in>set out. t < score q)}"
    if "defect_detection lib t paths [] = Inr d"
    using defect_detection_keys [OF that] by (simp add: above_threshold_nonempty)
  have entry: "\<exists>img out. read_image lib p = Inr img \<and> forward lib img = Inr out
              \<and> ((\<forall>q\<in>set out. score q \<le> t) \<longrightarrow> map_of d p = None)
              \<and> ((\<exists>q\<in>set out. t < score q) \<longrightarrow>
                   (\<exists>c. annotate lib img (above_threshold t out) = Inr c \<and> map_of d p = Some c
                      \<and> (\<forall>q\<in>set out. t < score q \<longrightarrow>
                            re_search_score (tensor_str lib (score q)) \<noteq> None)))"
    if dd: "defect_detection lib t paths [] = Inr d" and p: "p \<in> set paths" for p
  proof -
    from defect_detection_entry [OF dd p] obtain img out where
      r: "read_image lib p = Inr img" and f: "forward lib img = Inr out"
      and s: "above_threshold t out = [] \<longrightarrow> map_of d p = map_of [] p"
      and k: "above_threshold t out \<noteq> [] \<longrightarrow>
          (\<exists>c. annotate lib img (above_threshold t out) = Inr c \<and> map_of d p = Some c)"
      by blast
    have none: "map_of d p = None" if "\<forall>q\<in>set out. score q \<le> t"
    proof -
      from that have "above_threshold t out = []"
        using above_threshold_nonempty [of t out] by fastforce
      with s show ?thesis by simp
    qed
    have some: "\<exists>c. annotate lib img (above_threshold t out) = Inr c \<and> map_of d p = Some c
                      \<and> (\<forall>q\<in>set out. t < score q \<longrightarrow>
                            re_search_score (tensor_str lib (score q)) \<noteq> None)"
      if "\<exists>q\<in>set out. t < score q"
    proof -
      from that have "above_threshold t out \<noteq> []" by (simp add: above_threshold_nonempty)
      with k obtain c where c: "annotate lib img (above_threshold t out) = Inr c"
        "map_of d p = Some c" by blast
      from annotate_match [OF c(1)]
      have "\<forall>q\<in>set out. t < score q \<longrightarrow> re_search_score (tensor_str lib (score q)) \<noteq> None"
        by (simp add: above_threshold_def)
      with c show ?thesis by blast
    qed
    from r f none some show ?thesis by blast
  qed
  have listing: "listdir fs' (join wd ''5.DefectDetected_images'')
          = basename ` {p \<in> set paths. \<exists>img out. read_image lib p = Inr img
                          \<and> forward lib img = Inr out \<and> (\<exists>q\<in>set out. t < score q)}"
    if dd: "defect_detection lib t paths [] = Inr d"
      and pl: "plain_names fs (join wd ''5.DefectDetected_images'')"
      and sv: "DefectDetection_save_images wd d fs = Inr fs'"
  proof -
    from pl sv obtain l where "fs' (join wd ''5.DefectDetected_images'') = Some l"
      "fst ` set l = basename ` fst ` set d"
      using DefectDetection_save_images_listing [of wd d fs fs'] by blast
    then show ?thesis by (simp add: listdir_def keys [OF dd])
  qed
  show ?thesis
  proof (intro conjI impI ballI)
    show "set (above_threshold t preds) = {q \<in> set preds. t < score q}" by (rule a)
    show "above_threshold t (xs @ ys) = above_threshold t xs @ above_threshold t ys" by (rule b)
  next
    assume "defect_detection lib t paths [] = Inr d"
    then show "fst ` set d = {p \<in> set paths. \<exists>img out. read_image lib p = Inr img
                          \<and> forward lib img = Inr out \<and> (\<exists>q\<in>set out. t < score q)}"
      by (rule keys)
  next
    fix p
    assume "defect_detection lib t paths [] = Inr d" "p \<in> set paths"
    then show "\<exists>img out. read_image lib p = Inr img \<and> forward lib img = Inr out
              \<and> ((\<forall>q\<in>set out. score q \<le> t) \<longrightarrow> map_of d p = None)
              \<and> ((\<exists>q\<in>set out. t < score q) \<longrightarrow>
                   (\<exists>c. annotate lib img (above_threshold t out) = Inr c \<and> map_of d p = Some c
                      \<and> (\<forall>q\<in>set out. t < score q \<longrightarrow>
                            re_search_score (tensor_str lib (score q)) \<noteq> None)))"
      by (rule entry)
  next
    assume "defect_detection lib t paths [] = Inr d
      \<and> plain_names fs (join wd ''5.DefectDetected_images'')
      \<and> DefectDetection_save_images wd d fs = Inr fs'"
    then show "listdir fs' (join wd ''5.DefectDetected_images'')
          = basename ` {p \<in> set paths. \<exists>img out. read_image lib p = Inr img
                          \<and> forward lib img = Inr out \<and> (\<exists>q\<in>set out. t < score q)}"
      using listing by blast
  qed
qed

theorem C9_detections_witness:
  "defect_detection example_library 0.2 [''d/a.png''] []
     = Inr [(''d/a.png'', (''d/a.png'', 2, [((1, 1), ''0.7500''), ((2, 2), ''0.2500'')]))]
   \<and> DefectDetection_save_images ''wd''
        [(''d/a.png'', (''d/a.png'', 2::nat,
            [((1::real, 1::real), ''0.7500''), ((2, 2), ''0.2500'')]))] Map.empty
     = Inr [''wd/5.DefectDetected_images'' \<mapsto>
              [(''a.png'', File (''d/a.png'', 2, [((1, 1), ''0.7500''), ((2, 2), ''0.2500'')]))]]
   \<and> listdir [''wd/5.DefectDetected_images'' \<mapsto>
              [(''a.png'', File (''d/a.png'', 2::nat,
                  [((1::real, 1::real), ''0.7500''), ((2, 2), ''0.2500'')]))]]
        (join ''wd'' ''5.DefectDetected_images'') = {''a.png''}"
proof -
  let ?c = "(''d/a.png'', 2::nat, [((1::real, 1::real), ''0.7500''), ((2, 2), ''0.2500'')])"
  let ?d = "[(''d/a.png'', ?c)]"
  let ?fs' = "[''wd/5.DefectDetected_images'' \<mapsto> [(''a.png'', File ?c)]]"
  have dd: "defect_detection example_library 0.2 [''d/a.png''] [] = Inr ?d"
    by (simp add: example_library_def example_forward_def example_tensor_str_def
        above_threshold_def annotate_def is_digit_def Let_def)
  have sv: "DefectDetection_save_images ''wd'' ?d Map.empty = Inr ?fs'"
    by (simp add: DefectDetection_save_images_def fs_eval)
  have pl: "plain_names
      (Map.empty :: (string \<times> nat \<times> ((real \<times> real) \<times> string) list) fs)
      (join ''wd'' ''5.DefectDetected_images'')"
    by (simp add: plain_names_def)
  have sel: "{p \<in> set [''d/a.png'']. \<exists>img out. read_image example_library p = Inr img
        \<and> forward example_library img = Inr out \<and> (\<exists>q\<in>set out. 0.2 < score q)}
      = {''d/a.png''}"
    by (auto simp: example_library_def example_forward_def)
  note t = C9_detections [where lib = example_library and t = "0.2"
      and paths = "[''d/a.png'']" and d = ?d and wd = "''wd''"
      and fs = Map.empty and fs' = ?fs']
  have "listdir ?fs' (join ''wd'' ''5.DefectDetected_images'') = basename ` {''d/a.png''}"
    using t [THEN conjunct2, THEN conjunct2, THEN conjunct2, THEN mp, OF conjI [OF dd conjI [OF pl sv]]]
    unfolding sel .
  then have "listdir ?fs' (join ''wd'' ''5.DefectDetected_images'') = {''a.png''}"
    by (simp add: basename_def)
  with dd sv show ?thesis by (intro conjI)
qed
section \<open>Claim C10: the fallback to the disk\<close>

text \<open>
  Claim C10. The fallback is taken whenever an \<open>AttributeError\<close> is raised during the
  handoff, the failure is absorbed and the stage loads from disk; only when the handoff
  completes are the collaborator's paths and directory used. As stated this fails when the
  \<open>AttributeError\<close> comes from the second assignment of the \<open>try\<close> statement: the value
  that \<open>load_images()\<close> returned is already in \<open>image_paths\<close>. For a collaborator that
  returns \<open>None\<close> and has no \<open>Image_directory\<close> (as \<open>Acquisition_3D\<close>) the handler
  itself raises \<open>AttributeError\<close>, although the directory exists and holds a file; for
  one that returns a list, the list is kept and the files of the disk are appended.
\<close>

theorem C10_counterexample:
  "IQA_load_images (one_dir_env ''wd/1.Acquired_images'' [''wd/1.Acquired_images/a.png''])
     (Collaborator (Returns PyNone) None)
     \<lparr>self_Working_directory = ''wd'', self_Image_directory = ''wd/1.Acquired_images'',
      self_image_paths = PyList []\<rparr>
   = Inl AttributeError
   \<and> IQA_load_images (one_dir_env ''wd/1.Acquired_images'' [''wd/1.Acquired_images/a.png''])
     (Collaborator (Returns (PyList [''x/b.png''])) None)
     \<lparr>self_Working_directory = ''wd'', self_Image_directory = ''wd/1.Acquired_images'',
      self_image_paths = PyList []\<rparr>
   = Inr \<lparr>self_Working_directory = ''wd'', self_Image_directory = ''wd/1.Acquired_images'',
      self_image_paths = PyList [''x/b.png'', ''wd/1.Acquired_images/a.png'']\<rparr>"
  by (simp add: IQA_load_images_def try_collaborator_def disk_fallback_def one_dir_env_def
      filetypes4_def log_count_def join_def)

text \<open>
  Claim C10, amended. In \<open>load_images\<close> of IQA, defect detection, preprocessing and
  enrichment (the last two have the same text): when the
  call \<open>collaborator.load_images()\<close> raises \<open>AttributeError\<close> (whatever raised it, and
  whether or not the collaborator has a directory), the outcome is the outcome with no
  collaborator at all; with a list in \<open>image_paths\<close> and an existing directory that
  outcome is the list extended by the files that \<open>glob\<close> finds in the stage's directory.
  Any other exception of the call is raised. When the call returns a list and the
  collaborator has an \<open>Image_directory\<close>, exactly these two become the stage's paths and
  directory, whatever the disk holds.
\<close>

theorem C10_fallback:
  "IQA_load_images e (Collaborator (Raises AttributeError) dir) st
     = IQA_load_images e NoCollaborator st
   \<and> DefectDetection_load_images e (Collaborator (Raises AttributeError) dir) st
     = DefectDetection_load_images e NoCollaborator st
   \<and> Preprocess_load_images e order Image_open (Collaborator (Raises AttributeError) dir) st d
     = Preprocess_load_images e order Image_open NoCollaborator st d
   \<and> (self_image_paths st = PyList ps \<and> env_exists e (self_Image_directory st) \<longrightarrow>
        IQA_load_images e NoCollaborator st
          = Inr (st\<lparr>self_image_paths :=
                   PyList (ps @ concat (map (\<lambda>filetype. env_glob e
                              (join (self_Image_directory st) filetype)) filetypes4))\<rparr>))
   \<and> (x \<noteq> AttributeError \<longrightarrow>
        IQA_load_images e (Collaborator (Raises x) dir) st = Inl x
        \<and> DefectDetection_load_images e (Collaborator (Raises x) dir) st = Inl x
        \<and> Preprocess_load_images e order Image_open (Collaborator (Raises x) dir) st d = Inl x)
   \<and> IQA_load_images e (Collaborator (Returns (PyList qs)) (Some cdir)) st
       = Inr (st\<lparr>self_image_paths := PyList qs, self_Image_directory := cdir\<rparr>)
   \<and> DefectDetection_load_images e (Collaborator (Returns (PyList qs)) (Some cdir)) st
       = Inr (st\<lparr>self_image_paths := PyList qs, self_Image_directory := cdir\<rparr>)
   \<and> Preprocess_load_images e order Image_open (Collaborator (Returns (PyList qs)) (Some cdir)) st d
       = (case load_groups Image_open qs (order (uip qs)) d of
            Inl x \<Rightarrow> Inl x
          | Inr d' \<Rightarrow> Inr (st\<lparr>self_image_paths := PyList qs, self_Image_directory := cdir\<rparr>, d'))"
  by (auto simp: IQA_load_images_def DefectDetection_load_images_def
      Preprocess_load_images_def try_collaborator_def disk_fallback_def log_count_def Let_def)

theorem C10_fallback_witness:
  "IQA_load_images (one_dir_env ''wd/1.Acquired_images'' [''wd/1.Acquired_images/a.png''])
     (Collaborator (Raises AttributeError) (Some ''elsewhere''))
     \<lparr>self_Working_directory = ''wd'', self_Image_directory = ''wd/1.Acquired_images'',
      self_image_paths = PyList []\<rparr>
   = Inr \<lparr>self_Working_directory = ''wd'', self_Image_directory = ''wd/1.Acquired_images'',
      self_image_paths = PyList [''wd/1.Acquired_images/a.png'']\<rparr>
   \<and> IQA_load_images (one_dir_env ''wd/1.Acquired_images'' [''wd/1.Acquired_images/a.png''])
     (Collaborator (Raises OtherError) (Some ''elsewhere''))
     \<lparr>self_Working_directory = ''wd'', self_Image_directory = ''wd/1.Acquired_images'',
      self_image_paths = PyList []\<rparr>
   = Inl OtherError"
proof -
  let ?e = "one_dir_env ''wd/1.Acquired_images'' [''wd/1.Acquired_images/a.png'']"
  let ?st = "\<lparr>self_Working_directory = ''wd'', self_Image_directory = ''wd/1.Acquired_images'',
      self_image_paths = PyList []\<rparr>"
  have h1: "self_image_paths ?st = PyList [] \<and> env_exists ?e (self_Image_directory ?st)"
    by (simp add: one_dir_env_def)
  have h2: "OtherError \<noteq> AttributeError" by simp
  have g: "concat (map (\<lambda>filetype. env_glob ?e (join (self_Image_directory ?st) filetype))
      filetypes4) = [''wd/1.Acquired_images/a.png'']"
    by (simp add: one_dir_env_def filetypes4_def join_def)
  from C10_fallback [of ?e "Some ''elsewhere''" ?st id "\<lambda>_. ()" "[]" "[]" OtherError "[]" "[]"]
    h1 h2 g
  show ?thesis by simp
qed

end
